theory Spec2Isabelle
  imports Main "HOL-Library.Sublist"
begin

section \<open>Python strings\<close>

text \<open>
  A Python \<open>str\<close> is modelled as a \<open>string\<close> whose characters are read as the code
  points below 256. \<open>None\<close>-able strings are \<open>string option\<close>; Python's truth test
  on such a value (\<open>if x\<close>, \<open>not x\<close>) holds exactly for a non-empty string.
\<close>

definition isspace :: "char \<Rightarrow> bool" where
  "isspace c = (let n = (of_char c :: nat) in
     (9 \<le> n \<and> n \<le> 13) \<or> (28 \<le> n \<and> n \<le> 32) \<or> n = 133 \<or> n = 160)"

definition lower_char :: "char \<Rightarrow> char" where
  "lower_char c = (let n = (of_char c :: nat) in
     if (65 \<le> n \<and> n \<le> 90) \<or> (192 \<le> n \<and> n \<le> 222 \<and> n \<noteq> 215)
     then char_of (n + 32) else c)"

definition lower :: "string \<Rightarrow> string" where
  "lower s = map lower_char s"

definition lstrip :: "string \<Rightarrow> string" where
  "lstrip s = dropWhile isspace s"

definition rstrip :: "string \<Rightarrow> string" where
  "rstrip s = rev (dropWhile isspace (rev s))"

definition strip :: "string \<Rightarrow> string" where
  "strip s = rstrip (lstrip s)"

definition startswith :: "string \<Rightarrow> string \<Rightarrow> bool" where
  "startswith s p = prefix p s"

definition endswith :: "string \<Rightarrow> string \<Rightarrow> bool" where
  "endswith s p = suffix p s"

text \<open>\<open>s.split(sep, 1)[1]\<close>: the text after the first occurrence of \<open>sep\<close>;
  \<open>None\<close> stands for the \<open>IndexError\<close> raised when \<open>sep\<close> does not occur.\<close>

fun after_first :: "string \<Rightarrow> string \<Rightarrow> string option" where
  "after_first sep [] = (if sep = [] then Some [] else None)"
| "after_first sep (c # cs) =
     (if prefix sep (c # cs) then Some (drop (length sep) (c # cs)) else after_first sep cs)"

definition truthy :: "string option \<Rightarrow> bool" where
  "truthy x = (case x of None \<Rightarrow> False | Some s \<Rightarrow> s \<noteq> [])"

text \<open>How an f-string renders a value that may be \<open>None\<close>.\<close>

definition fmt :: "string option \<Rightarrow> string" where
  "fmt x = (case x of None \<Rightarrow> ''None'' | Some s \<Rightarrow> s)"

section \<open>Cleaning generated code (both revisions, identical text)\<close>

definition clean_llm_code_output :: "string \<Rightarrow> string option \<Rightarrow> string" where
  "clean_llm_code_output content0 language =
    (let content = strip content0;
         language_tag_start =
           strip (''```'' @ (case language of None \<Rightarrow> [] | Some l \<Rightarrow> if l \<noteq> [] then lower l else []));
         content =
           (if truthy language \<and> startswith content language_tag_start
            then drop (length language_tag_start) content
            else if startswith content ''```'' then drop 3 content
            else content);
         content =
           (if endswith content ''```'' then take (length content - 3) content else content)
     in strip content)"


section \<open>The work record and the collaborators\<close>

text \<open>
  The values that \<open>state["stage"]\<close> takes in the source, in the order of the dispatch:
  "User Input", "Generate User Stories", "Product Owner Review", "Revise User Stories",
  "Create Design Docs", "Design Review", "Revise Design Docs", "Generate Code",
  "Code Review", "Fix Code Review", "Security Review", "Fix Security",
  "Write Test Cases", "Test Case Review", "Fix Test Cases", "QA Testing", "Deploy",
  "Deployed" and, in the final revision only, "Deployment Failed".
\<close>

datatype stage =
    UserInput | GenerateUserStories | ProductOwnerReview | ReviseUserStories
  | CreateDesignDocs | DesignReview | ReviseDesignDocs | GenerateCode
  | CodeReview | FixCodeReview | SecurityReview | FixSecurity
  | WriteTestCases | TestCaseReview | FixTestCases | QATesting | Deploy
  | Deployed | DeploymentFailed

text \<open>
  \<open>SDLCState\<close> is a dictionary whose keys are all set when it is created, so every key
  is a field. \<open>decision\<close> holds the string the code stores (the type hint is not
  enforced). \<open>deployment_reasoning\<close> is the key the final revision's \<open>deploy\<close> adds;
  \<open>None\<close> stands for its absence.
\<close>

record SDLCState =
  stage :: stage
  user_input :: string
  target_language :: "string option"
  user_stories :: "string option"
  design_docs :: "string option"
  code :: "string option"
  test_cases :: "string option"
  decision :: "string option"
  feedback :: "string option"
  history :: "(string \<times> string) list"
  deployment_reasoning :: "string option"

text \<open>
  The Generation Service as one turn sees it: \<open>llm\<close> is \<open>None\<close>, or \<open>llm.invoke\<close>
  returns a message with the given content, or it raises with the given text. The prompt
  does not enter the model: the reply is an input of the turn.
\<close>

datatype llm = NoLLM | Responds string | Fails string

datatype exn = AttributeError | TypeError | IndexError | ServiceError string

text \<open>
  A handler mutates the dictionary in place, so a raise leaves behind what was written
  before it: \<open>Raised e s\<close> carries the record as it stands at the raise.
\<close>

datatype 'a outcome = Returned 'a | Raised exn 'a

fun store_of :: "'a outcome \<Rightarrow> 'a" where
  "store_of (Returned s) = s"
| "store_of (Raised e s) = s"

fun and_then :: "'a outcome \<Rightarrow> ('a \<Rightarrow> 'a outcome) \<Rightarrow> 'a outcome" where
  "and_then (Returned s) f = f s"
| "and_then (Raised e s) f = Raised e s"

text \<open>\<open>language.lower()\<close> on a target language that is \<open>None\<close> raises.\<close>

definition needs_language :: "SDLCState \<Rightarrow> SDLCState outcome \<Rightarrow> SDLCState outcome" where
  "needs_language s k = (if target_language s = None then Raised AttributeError s else k)"

text \<open>
  The \<open>if\<close>/\<open>elif\<close>/\<open>else\<close> chain that every review function applies to the
  normalised reply \<open>content\<close>; the functions differ in the approval test and in the text
  stored for an unrecognised reply.
\<close>

definition review_verdict :: "bool \<Rightarrow> string \<Rightarrow> string \<Rightarrow> SDLCState \<Rightarrow> SDLCState outcome" where
  "review_verdict is_approved content unclear s =
    (if is_approved then Returned (s\<lparr>decision := Some ''approved'', feedback := None\<rparr>)
     else if startswith content ''feedback:'' then
       (case after_first ''feedback:'' content of
          None \<Rightarrow> Raised IndexError (s\<lparr>decision := Some ''feedback''\<rparr>)
        | Some rest \<Rightarrow> Returned (s\<lparr>decision := Some ''feedback'', feedback := Some (strip rest)\<rparr>))
     else Returned (s\<lparr>decision := Some ''feedback'', feedback := Some unclear\<rparr>))"

definition quoted :: "string \<Rightarrow> string" where
  "quoted s = [CHR 0x27] @ s @ [CHR 0x27]"

section \<open>Stage handlers of the first revision (streamlit.py)\<close>

definition generate_user_stories :: "llm \<Rightarrow> SDLCState \<Rightarrow> SDLCState outcome" where
  "generate_user_stories l s = (case l of
      NoLLM \<Rightarrow> Returned s
    | Fails e \<Rightarrow> Raised (ServiceError e) s
    | Responds r \<Rightarrow> Returned (s\<lparr>user_stories := Some r, stage := ProductOwnerReview\<rparr>))"

definition product_owner_review :: "llm \<Rightarrow> SDLCState \<Rightarrow> SDLCState outcome" where
  "product_owner_review l s = (case l of
      NoLLM \<Rightarrow> Returned s
    | Fails e \<Rightarrow> Raised (ServiceError e) s
    | Responds r \<Rightarrow>
        (let content = lower (strip r) in
         review_verdict (startswith content ''approved'') content
           (''LLM response unclear, please manually review and revise: '' @ quoted content) s))"

definition revise_user_stories :: "llm \<Rightarrow> SDLCState \<Rightarrow> SDLCState outcome" where
  "revise_user_stories l s =
    (if \<not> truthy (feedback s) then Returned (s\<lparr>stage := ProductOwnerReview\<rparr>)
     else (case l of
        NoLLM \<Rightarrow> Returned s
      | Fails e \<Rightarrow> Raised (ServiceError e) s
      | Responds r \<Rightarrow> Returned (s\<lparr>user_stories := Some r, decision := None, feedback := None,
                                  stage := ProductOwnerReview\<rparr>)))"

definition create_design_docs :: "llm \<Rightarrow> SDLCState \<Rightarrow> SDLCState outcome" where
  "create_design_docs l s = (case l of
      NoLLM \<Rightarrow> Returned s
    | Fails e \<Rightarrow> Raised (ServiceError e) s
    | Responds r \<Rightarrow> Returned (s\<lparr>design_docs := Some r, stage := DesignReview\<rparr>))"

definition design_review :: "llm \<Rightarrow> SDLCState \<Rightarrow> SDLCState outcome" where
  "design_review l s = (case l of
      NoLLM \<Rightarrow> Returned s
    | Fails e \<Rightarrow> Raised (ServiceError e) s
    | Responds r \<Rightarrow>
        (let content = lower (strip r) in
         review_verdict (startswith content ''approved'') content
           (''LLM response unclear, please manually review and revise: '' @ quoted content) s))"

definition revise_design_docs :: "llm \<Rightarrow> SDLCState \<Rightarrow> SDLCState outcome" where
  "revise_design_docs l s =
    (if l \<noteq> NoLLM \<and> truthy (feedback s) then
       (case l of
          Responds r \<Rightarrow> Returned (s\<lparr>design_docs := Some r, decision := None, feedback := None,
                                    stage := DesignReview\<rparr>)
        | Fails e \<Rightarrow> Raised (ServiceError e) s
        | NoLLM \<Rightarrow> Returned s)
     else if \<not> truthy (feedback s) then Returned (s\<lparr>stage := DesignReview\<rparr>)
     else Returned s)"

definition generate_code :: "llm \<Rightarrow> SDLCState \<Rightarrow> SDLCState outcome" where
  "generate_code l s =
    (if \<not> truthy (target_language s) then Returned (s\<lparr>stage := UserInput\<rparr>)
     else (case l of
        NoLLM \<Rightarrow> Returned s
      | Fails e \<Rightarrow> Raised (ServiceError e) s
      | Responds r \<Rightarrow>
          Returned (s\<lparr>code := Some (clean_llm_code_output r (target_language s)),
                      stage := CodeReview\<rparr>)))"

definition code_review :: "llm \<Rightarrow> SDLCState \<Rightarrow> SDLCState outcome" where
  "code_review l s = (case l of
      NoLLM \<Rightarrow> Returned s
    | Fails e \<Rightarrow> Raised (ServiceError e) s
    | Responds r \<Rightarrow>
        (let content = lower (strip r) in
         review_verdict (startswith content ''approved'') content
           (''LLM response unclear ('' @ fmt (target_language s)
              @ '' Code Review), please manually review and revise: '' @ quoted content) s))"

definition fix_code_review :: "llm \<Rightarrow> SDLCState \<Rightarrow> SDLCState outcome" where
  "fix_code_review l s = needs_language s
    (if l \<noteq> NoLLM \<and> truthy (feedback s) then
       (case l of
          Responds r \<Rightarrow>
            Returned (s\<lparr>code := Some (clean_llm_code_output r (target_language s)),
                        decision := None, feedback := None, stage := CodeReview\<rparr>)
        | Fails e \<Rightarrow> Raised (ServiceError e) s
        | NoLLM \<Rightarrow> Returned s)
     else if \<not> truthy (feedback s) then Returned (s\<lparr>stage := CodeReview\<rparr>)
     else Returned s)"

definition security_review :: "llm \<Rightarrow> SDLCState \<Rightarrow> SDLCState outcome" where
  "security_review l s =
    (if \<not> truthy (code s) then
       Returned (s\<lparr>decision := Some ''feedback'',
                   feedback := Some ''No code available for security review.''\<rparr>)
     else needs_language s (case l of
        NoLLM \<Rightarrow>
          Returned (s\<lparr>decision := Some ''feedback'',
                      feedback := Some ''LLM not initialized, skipping security review.'',
                      stage := SecurityReview\<rparr>)
      | Fails e \<Rightarrow> Raised (ServiceError e) s
      | Responds r \<Rightarrow>
          (let content = lower (strip r) in
           and_then
             (review_verdict (startswith content ''approved'') content
                (''Potential security concerns identified ('' @ fmt (target_language s)
                   @ ''): '' @ content) s)
             (\<lambda>s'. Returned (s'\<lparr>stage := SecurityReview\<rparr>)))))"

definition fix_security_issues :: "llm \<Rightarrow> SDLCState \<Rightarrow> SDLCState outcome" where
  "fix_security_issues l s = needs_language s
    (if \<not> truthy (feedback s) then Returned (s\<lparr>stage := SecurityReview\<rparr>)
     else (case l of
        NoLLM \<Rightarrow> Returned s
      | Fails e \<Rightarrow> Raised (ServiceError e) s
      | Responds r \<Rightarrow>
          Returned (s\<lparr>code := Some (clean_llm_code_output r (target_language s)),
                      decision := None, feedback := None, stage := SecurityReview\<rparr>)))"

definition write_test_cases :: "llm \<Rightarrow> SDLCState \<Rightarrow> SDLCState outcome" where
  "write_test_cases l s = needs_language s (case l of
      NoLLM \<Rightarrow> Returned s
    | Fails e \<Rightarrow> Raised (ServiceError e) s
    | Responds r \<Rightarrow>
        Returned (s\<lparr>test_cases := Some (clean_llm_code_output r (target_language s)),
                    stage := TestCaseReview\<rparr>))"

definition review_test_cases :: "llm \<Rightarrow> SDLCState \<Rightarrow> SDLCState outcome" where
  "review_test_cases l s = needs_language s (case l of
      NoLLM \<Rightarrow> Returned s
    | Fails e \<Rightarrow> Raised (ServiceError e) s
    | Responds r \<Rightarrow>
        (let content = lower (strip r) in
         review_verdict (content = ''approved'') content
           (''LLM response unclear ('' @ fmt (target_language s)
              @ '' Test Review), please manually review and revise: '' @ quoted content) s))"

definition fix_test_cases :: "llm \<Rightarrow> SDLCState \<Rightarrow> SDLCState outcome" where
  "fix_test_cases l s = needs_language s
    (if l \<noteq> NoLLM \<and> truthy (feedback s) then
       (case l of
          Responds r \<Rightarrow>
            Returned (s\<lparr>test_cases := Some (clean_llm_code_output r (target_language s)),
                        decision := None, feedback := None, stage := TestCaseReview\<rparr>)
        | Fails e \<Rightarrow> Raised (ServiceError e) s
        | NoLLM \<Rightarrow> Returned s)
     else if \<not> truthy (feedback s) then Returned (s\<lparr>stage := TestCaseReview\<rparr>)
     else Returned s)"

text \<open>The verdict part of \<open>qa_testing\<close>: the reply is stripped but not lower-cased.\<close>

definition qa_verdict :: "string \<Rightarrow> SDLCState \<Rightarrow> SDLCState outcome" where
  "qa_verdict content s =
    (if startswith content ''PASS:'' then
       (case after_first ''PASS:'' content of
          None \<Rightarrow> Raised IndexError (s\<lparr>decision := Some ''passed''\<rparr>)
        | Some rest \<Rightarrow> Returned (s\<lparr>decision := Some ''passed'', feedback := Some (strip rest)\<rparr>))
     else if startswith content ''FAIL:'' then
       (case after_first ''FAIL:'' content of
          None \<Rightarrow> Raised IndexError (s\<lparr>decision := Some ''failed''\<rparr>)
        | Some rest \<Rightarrow> Returned (s\<lparr>decision := Some ''failed'', feedback := Some (strip rest)\<rparr>))
     else Returned (s\<lparr>decision := Some ''failed'',
            feedback := Some (''AI QA analysis returned an unexpected response: '' @ quoted content
                              @ ''. Manual review recommended.'')\<rparr>))"

definition qa_testing :: "llm \<Rightarrow> SDLCState \<Rightarrow> SDLCState outcome" where
  "qa_testing l s =
    (if \<not> truthy (code s) \<or> \<not> truthy (test_cases s) then
       Returned (s\<lparr>decision := Some ''failed'', feedback := Some ''Code or test cases not found.'',
                   stage := QATesting\<rparr>)
     else (case l of
        NoLLM \<Rightarrow>
          Returned (s\<lparr>decision := Some ''passed'', feedback := Some ''Basic QA simulation passed.'',
                      stage := QATesting\<rparr>)
      | Fails e \<Rightarrow> Raised (ServiceError e) s
      | Responds r \<Rightarrow>
          and_then (qa_verdict (strip r) s) (\<lambda>s'. Returned (s'\<lparr>stage := QATesting\<rparr>))))"

definition deploy :: "SDLCState \<Rightarrow> SDLCState outcome" where
  "deploy s = Returned (s\<lparr>stage := Deployed\<rparr>)"


section \<open>Stage handlers of the final revision (streamlit_final.py)\<close>

text \<open>\<open>state["history"].append((name, text))\<close>.\<close>

definition log_entry :: "string \<Rightarrow> string \<Rightarrow> SDLCState \<Rightarrow> SDLCState" where
  "log_entry name text s = s\<lparr>history := history s @ [(name, text)]\<rparr>"

definition generate_user_stories_final :: "llm \<Rightarrow> SDLCState \<Rightarrow> SDLCState outcome" where
  "generate_user_stories_final l s = (case l of
      NoLLM \<Rightarrow> Returned s
    | Fails e \<Rightarrow> Raised (ServiceError e) s
    | Responds r \<Rightarrow>
        Returned (log_entry ''generate_user_stories'' r
                    (s\<lparr>user_stories := Some r, stage := ProductOwnerReview\<rparr>)))"

definition product_owner_review_final :: "llm \<Rightarrow> SDLCState \<Rightarrow> SDLCState outcome" where
  "product_owner_review_final l s = (case l of
      NoLLM \<Rightarrow> Returned s
    | Fails e \<Rightarrow> Raised (ServiceError e) s
    | Responds r \<Rightarrow>
        (let content = lower (strip r) in
         and_then
           (review_verdict (startswith content ''approved'') content
              (''LLM response unclear, please manually review and revise: '' @ quoted content) s)
           (\<lambda>s'. Returned (log_entry ''product_owner_review'' r s'))))"

definition revise_user_stories_final :: "llm \<Rightarrow> SDLCState \<Rightarrow> SDLCState outcome" where
  "revise_user_stories_final l s =
    (if \<not> truthy (feedback s) then Returned (s\<lparr>stage := ProductOwnerReview\<rparr>)
     else (case l of
        NoLLM \<Rightarrow> Returned s
      | Fails e \<Rightarrow> Raised (ServiceError e) s
      | Responds r \<Rightarrow>
          Returned (log_entry ''revise_user_stories'' r
                      (s\<lparr>user_stories := Some r, decision := None, feedback := None,
                         stage := ProductOwnerReview\<rparr>))))"

definition create_design_docs_final :: "llm \<Rightarrow> SDLCState \<Rightarrow> SDLCState outcome" where
  "create_design_docs_final l s = (case l of
      NoLLM \<Rightarrow> Returned s
    | Fails e \<Rightarrow> Raised (ServiceError e) s
    | Responds r \<Rightarrow>
        Returned (log_entry ''create_design_docs'' r
                    (s\<lparr>design_docs := Some r, stage := DesignReview\<rparr>)))"

definition design_review_final :: "llm \<Rightarrow> SDLCState \<Rightarrow> SDLCState outcome" where
  "design_review_final l s = (case l of
      NoLLM \<Rightarrow> Returned s
    | Fails e \<Rightarrow> Raised (ServiceError e) s
    | Responds r \<Rightarrow>
        (let content = lower (strip r) in
         and_then
           (review_verdict (startswith content ''approved'') content
              (''LLM response unclear, please manually review and revise: '' @ quoted content) s)
           (\<lambda>s'. Returned (log_entry ''design_review'' r s'))))"

definition revise_design_docs_final :: "llm \<Rightarrow> SDLCState \<Rightarrow> SDLCState outcome" where
  "revise_design_docs_final l s =
    (if l \<noteq> NoLLM \<and> truthy (feedback s) then
       (case l of
          Responds r \<Rightarrow>
            Returned (log_entry ''revise_design_docs'' r
                        (s\<lparr>design_docs := Some r, decision := None, feedback := None,
                           stage := DesignReview\<rparr>))
        | Fails e \<Rightarrow> Raised (ServiceError e) s
        | NoLLM \<Rightarrow> Returned s)
     else if \<not> truthy (feedback s) then
       Returned (log_entry ''revise_design_docs''
                   ''No feedback provided. Skipping design document revision.''
                   (s\<lparr>stage := DesignReview\<rparr>))
     else Returned s)"

definition generate_code_final :: "llm \<Rightarrow> SDLCState \<Rightarrow> SDLCState outcome" where
  "generate_code_final l s =
    (if \<not> truthy (target_language s) then Returned (s\<lparr>stage := UserInput\<rparr>)
     else (case l of
        NoLLM \<Rightarrow> Returned s
      | Fails e \<Rightarrow> Raised (ServiceError e) s
      | Responds r \<Rightarrow>
          (let content = clean_llm_code_output r (target_language s) in
           Returned (log_entry ''generate_code'' content
                       (s\<lparr>code := Some content, stage := CodeReview\<rparr>)))))"

definition code_review_final :: "llm \<Rightarrow> SDLCState \<Rightarrow> SDLCState outcome" where
  "code_review_final l s = (case l of
      NoLLM \<Rightarrow> Returned s
    | Fails e \<Rightarrow> Raised (ServiceError e) s
    | Responds r \<Rightarrow>
        (let content = lower (strip r) in
         and_then
           (review_verdict (startswith content ''approved'') content
              (''LLM response unclear ('' @ fmt (target_language s)
                 @ '' Code Review), please manually review and revise: '' @ quoted content) s)
           (\<lambda>s'. Returned (log_entry ''code_review'' r s'))))"

definition fix_code_review_final :: "llm \<Rightarrow> SDLCState \<Rightarrow> SDLCState outcome" where
  "fix_code_review_final l s = needs_language s
    (if l \<noteq> NoLLM \<and> truthy (feedback s) then
       (case l of
          Responds r \<Rightarrow>
            (let content = clean_llm_code_output r (target_language s) in
             Returned (log_entry ''fix_code_review'' content
                         (s\<lparr>code := Some content, decision := None, feedback := None,
                            stage := CodeReview\<rparr>)))
        | Fails e \<Rightarrow> Raised (ServiceError e) s
        | NoLLM \<Rightarrow> Returned s)
     else if \<not> truthy (feedback s) then
       Returned (log_entry ''fix_code_review'' ''No feedback provided. Skipping code fixing.''
                   (s\<lparr>stage := CodeReview\<rparr>))
     else Returned s)"

definition security_review_final :: "llm \<Rightarrow> SDLCState \<Rightarrow> SDLCState outcome" where
  "security_review_final l s =
    (if \<not> truthy (code s) then
       Returned (s\<lparr>decision := Some ''feedback'',
                   feedback := Some ''No code available for security review.''\<rparr>)
     else needs_language s (case l of
        NoLLM \<Rightarrow>
          Returned (s\<lparr>decision := Some ''feedback'',
                      feedback := Some ''LLM not initialized, skipping security review.'',
                      stage := SecurityReview\<rparr>)
      | Fails e \<Rightarrow> Raised (ServiceError e) s
      | Responds r \<Rightarrow>
          (let content = lower (strip r) in
           and_then
             (review_verdict (startswith content ''approved'') content
                (''Potential security concerns identified ('' @ fmt (target_language s)
                   @ ''): '' @ content) s)
             (\<lambda>s'. Returned (log_entry ''security_review'' r (s'\<lparr>stage := SecurityReview\<rparr>))))))"

definition fix_security_issues_final :: "llm \<Rightarrow> SDLCState \<Rightarrow> SDLCState outcome" where
  "fix_security_issues_final l s = needs_language s
    (if \<not> truthy (feedback s) then Returned (s\<lparr>stage := SecurityReview\<rparr>)
     else (case l of
        NoLLM \<Rightarrow> Returned s
      | Fails e \<Rightarrow> Raised (ServiceError e) s
      | Responds r \<Rightarrow>
          (let content = clean_llm_code_output r (target_language s) in
           Returned (log_entry ''fix_security_issues'' content
                       (s\<lparr>code := Some content, decision := None, feedback := None,
                          stage := SecurityReview\<rparr>)))))"

definition write_test_cases_final :: "llm \<Rightarrow> SDLCState \<Rightarrow> SDLCState outcome" where
  "write_test_cases_final l s = needs_language s (case l of
      NoLLM \<Rightarrow> Returned s
    | Fails e \<Rightarrow> Raised (ServiceError e) s
    | Responds r \<Rightarrow>
        (let content = clean_llm_code_output r (target_language s) in
         Returned (log_entry ''write_test_cases'' content
                     (s\<lparr>test_cases := Some content, stage := TestCaseReview\<rparr>))))"

definition review_test_cases_final :: "llm \<Rightarrow> SDLCState \<Rightarrow> SDLCState outcome" where
  "review_test_cases_final l s = needs_language s (case l of
      NoLLM \<Rightarrow> Returned s
    | Fails e \<Rightarrow> Raised (ServiceError e) s
    | Responds r \<Rightarrow>
        (let content = lower (strip r) in
         and_then
           (review_verdict (content = ''approved'') content
              (''LLM response unclear ('' @ fmt (target_language s)
                 @ '' Test Review), please manually review and revise: '' @ quoted content) s)
           (\<lambda>s'. Returned (log_entry ''review_test_cases'' r s'))))"

definition fix_test_cases_final :: "llm \<Rightarrow> SDLCState \<Rightarrow> SDLCState outcome" where
  "fix_test_cases_final l s = needs_language s
    (if l \<noteq> NoLLM \<and> truthy (feedback s) then
       (case l of
          Responds r \<Rightarrow>
            (let content = clean_llm_code_output r (target_language s) in
             Returned (log_entry ''fix_test_cases'' content
                         (s\<lparr>test_cases := Some content, decision := None, feedback := None,
                            stage := TestCaseReview\<rparr>)))
        | Fails e \<Rightarrow> Raised (ServiceError e) s
        | NoLLM \<Rightarrow> Returned s)
     else if \<not> truthy (feedback s) then
       Returned (log_entry ''fix_test_cases'' ''No feedback provided. Skipping test case fixing.''
                   (s\<lparr>stage := TestCaseReview\<rparr>))
     else Returned s)"

text \<open>The prompt of \<open>qa_testing\<close>, which enters the history when \<open>show_llm_details\<close> is set.\<close>

definition qa_testing_prompt :: "string option \<Rightarrow> string \<Rightarrow> string \<Rightarrow> string" where
  "qa_testing_prompt language code_text tests_text =
     ''\<newline>''
     @ ''    You are a highly skilled software quality assurance engineer. Your task is to evaluate the provided ''
     @ fmt language
     @ '' code and its corresponding test cases to determine if the tests are likely to pass and if they provide adequate coverage of the code's functionality.\<newline>''
     @ ''\<newline>''
     @ ''    Analyze the code to understand its intended behavior and then carefully review the test cases to see if they thoroughly test this behavior. Consider common programming practices, potential edge cases, and the overall structure of both the code and the tests.\<newline>''
     @ ''\<newline>''
     @ ''    **Code (''
     @ fmt language
     @ ''):**\<newline>''
     @ ''    ```\<newline>''
     @ ''    ''
     @ code_text
     @ ''\<newline>''
     @ ''    ```\<newline>''
     @ ''\<newline>''
     @ ''    **Test Cases (''
     @ fmt language
     @ ''):**\<newline>''
     @ ''    ```\<newline>''
     @ ''    ''
     @ tests_text
     @ ''\<newline>''
     @ ''    ```\<newline>''
     @ ''\<newline>''
     @ ''    Based on your analysis, respond with one of the following:\<newline>''
     @ ''\<newline>''
     @ ''    - `PASS: [Begin with a brief statement of why the tests are likely to pass. Then, concisely explain the key strengths in the test coverage, mentioning specific aspects of the code's functionality that are well-tested.]`\<newline>''
     @ ''\<newline>''
     @ ''    - `FAIL: [Begin with a brief statement of why the tests are likely to fail or are inadequate. Then, concisely point out the significant weaknesses or gaps in the test coverage, ideally mentioning specific functionalities or edge cases that are missing or poorly tested.]`\<newline>''
     @ ''    ''"

text \<open>The \<open>except Exception as e\<close> branch of \<open>qa_testing\<close>, with \<open>msg = str(e)\<close>.\<close>

definition qa_except :: "string \<Rightarrow> SDLCState \<Rightarrow> SDLCState" where
  "qa_except msg s =
     (log_entry ''qa_testing_error'' msg
        (s\<lparr>decision := Some ''error'',
           feedback := Some (''Error during AI QA analysis: '' @ msg @ ''. Manual review required.'')\<rparr>))
     \<lparr>stage := QATesting\<rparr>"

text \<open>
  Inside the \<open>try\<close> block only \<open>llm.invoke\<close> and the \<open>split(...)[1]\<close> of the verdict
  can raise; the latter's message is Python's text for an \<open>IndexError\<close> on a list.
\<close>

definition qa_testing_final :: "bool \<Rightarrow> llm \<Rightarrow> SDLCState \<Rightarrow> SDLCState outcome" where
  "qa_testing_final show_llm_details l s =
    (if \<not> truthy (code s) \<or> \<not> truthy (test_cases s) then
       Returned (s\<lparr>decision := Some ''failed'', feedback := Some ''Code or test cases not found.'',
                   stage := QATesting\<rparr>)
     else (case l of
        NoLLM \<Rightarrow>
          Returned ((log_entry ''qa_testing_simulation'' ''Basic QA simulation passed.''
                      (s\<lparr>decision := Some ''passed'',
                         feedback := Some ''Basic QA simulation passed.''\<rparr>))
                    \<lparr>stage := QATesting\<rparr>)
      | Fails e \<Rightarrow>
          (let s1 = (if show_llm_details
                     then log_entry ''qa_testing_prompt''
                            (qa_testing_prompt (target_language s) (fmt (code s)) (fmt (test_cases s))) s
                     else s)
           in Returned (qa_except e s1))
      | Responds r \<Rightarrow>
          (let s1 = (if show_llm_details
                     then log_entry ''qa_testing_prompt''
                            (qa_testing_prompt (target_language s) (fmt (code s)) (fmt (test_cases s))) s
                     else s);
               content = strip r;
               s2 = (if show_llm_details then log_entry ''qa_testing_raw_output'' content s1 else s1)
           in (case qa_verdict content s2 of
                 Returned s3 \<Rightarrow> Returned ((log_entry ''qa_testing_result'' content s3)\<lparr>stage := QATesting\<rparr>)
               | Raised ex s3 \<Rightarrow> Returned (qa_except ''list index out of range'' s3)))))"

text \<open>
  \<open>"Deployment halted ... Reason: " + qa_feedback\<close> raises a \<open>TypeError\<close> when the
  feedback is \<open>None\<close> (the key exists, so the default of \<open>get\<close> is not used); the stage has
  been written by then.
\<close>

definition deploy_final :: "bool \<Rightarrow> llm \<Rightarrow> SDLCState \<Rightarrow> SDLCState outcome" where
  "deploy_final show_llm_details l s =
    (if decision s \<noteq> Some ''passed'' then
       (case feedback s of
          None \<Rightarrow> Raised TypeError (s\<lparr>stage := DeploymentFailed\<rparr>)
        | Some qa_feedback \<Rightarrow>
            Returned (s\<lparr>stage := DeploymentFailed,
                        feedback := Some (''Deployment halted due to failed QA testing. Reason: ''
                                          @ qa_feedback)\<rparr>))
     else (case l of
        NoLLM \<Rightarrow>
          Returned ((log_entry ''deploy'' ''Basic deployment simulation successful as QA passed.''
                      (s\<lparr>deployment_reasoning :=
                           Some ''Basic deployment simulation successful as QA passed.''\<rparr>))
                    \<lparr>stage := Deployed\<rparr>)
      | Responds r \<Rightarrow>
          Returned ((log_entry ''deploy'' (strip r)
                      (s\<lparr>deployment_reasoning := Some (strip r)\<rparr>))
                    \<lparr>stage := Deployed\<rparr>)
      | Fails e \<Rightarrow>
          Returned ((log_entry ''deploy'' (''Error during LLM reasoning: '' @ e)
                      (s\<lparr>deployment_reasoning :=
                           Some (''Error during AI deployment reasoning: '' @ e)\<rparr>))
                    \<lparr>stage := Deployed\<rparr>)))"


section \<open>The page script\<close>

text \<open>
  Streamlit runs the whole script once per event. \<open>st.session_state\<close> holds the work
  record under \<open>app_state\<close> and the flags \<open>show_feedback_box\<close> and (final revision
  only) \<open>show_llm_details\<close>; \<open>feedback_input\<close> is only ever assigned the empty string
  and is left out. A run sees at most one pressed button, with the text of the input
  widgets it reads. \<open>st.rerun()\<close> ends the run and keeps the session.
\<close>

record session =
  app_state :: SDLCState
  show_feedback_box :: bool
  show_llm_details :: bool

datatype event =
    NoButton
  | StartSDLC string string
  | AskAI
  | ApproveManually
  | ProvideFeedbackManually
  | SubmitFeedback string
  | Continue
  | StartNewWorkflow

definition initial_state :: SDLCState where
  "initial_state = \<lparr>stage = UserInput, user_input = [], target_language = None,
     user_stories = None, design_docs = None, code = None, test_cases = None,
     decision = None, feedback = None, history = [], deployment_reasoning = None\<rparr>"

definition initial_session :: session where
  "initial_session = \<lparr>app_state = initial_state, show_feedback_box = False,
     show_llm_details = False\<rparr>"

text \<open>
  The display area calls \<open>.capitalize()\<close> on the target language when code or test
  cases are shown, and most branches do so for their header: a target language that is
  \<open>None\<close> raises there.
\<close>

definition display_area_raises :: "SDLCState \<Rightarrow> bool" where
  "display_area_raises s = ((truthy (code s) \<or> truthy (test_cases s)) \<and> target_language s = None)"

definition header_language :: "session \<Rightarrow> session outcome \<Rightarrow> session outcome" where
  "header_language sess k =
     (if target_language (app_state sess) = None then Raised AttributeError sess else k)"

text \<open>\<open>st.session_state.app_state = handler(current_state)\<close>.\<close>

definition store :: "session \<Rightarrow> SDLCState outcome \<Rightarrow> session outcome" where
  "store sess r = (case r of
      Returned s' \<Rightarrow> Returned (sess\<lparr>app_state := s'\<rparr>)
    | Raised e s' \<Rightarrow> Raised e (sess\<lparr>app_state := s'\<rparr>))"

text \<open>The "User Input" branch reads the two text inputs when the start button is pressed.\<close>

definition user_input_stage :: "event \<Rightarrow> session \<Rightarrow> session outcome" where
  "user_input_stage ev sess = (case ev of
      StartSDLC user_input_area target_lang_input \<Rightarrow>
        (if user_input_area \<noteq> [] \<and> target_lang_input \<noteq> [] then
           Returned (sess\<lparr>app_state := (app_state sess)
             \<lparr>user_input := user_input_area,
              target_language := Some (lower (strip target_lang_input)),
              stage := GenerateUserStories\<rparr>\<rparr>)
         else Returned sess)
    | _ \<Rightarrow> Returned sess)"

text \<open>
  A review branch: the AI button runs the review function and moves the stage by the
  decision it finds afterwards; the manual buttons write the verdict themselves. The
  submit button exists only while the feedback box is shown.
\<close>

definition review_stage ::
  "SDLCState outcome \<Rightarrow> stage \<Rightarrow> stage \<Rightarrow> event \<Rightarrow> session \<Rightarrow> session outcome" where
  "review_stage reviewed on_approved on_feedback ev sess = (case ev of
      AskAI \<Rightarrow> (case reviewed of
          Raised e s' \<Rightarrow> Raised e (sess\<lparr>app_state := s'\<rparr>)
        | Returned s' \<Rightarrow>
            Returned (sess\<lparr>app_state :=
              (if decision s' = Some ''approved'' then s'\<lparr>stage := on_approved\<rparr>
               else if decision s' = Some ''feedback'' then s'\<lparr>stage := on_feedback\<rparr>
               else s')\<rparr>))
    | ApproveManually \<Rightarrow>
        Returned (sess\<lparr>app_state := (app_state sess)
                    \<lparr>decision := Some ''approved'', feedback := None, stage := on_approved\<rparr>,
                  show_feedback_box := False\<rparr>)
    | ProvideFeedbackManually \<Rightarrow> Returned (sess\<lparr>show_feedback_box := True\<rparr>)
    | SubmitFeedback feedback_text \<Rightarrow>
        (if show_feedback_box sess \<and> feedback_text \<noteq> [] then
           Returned (sess\<lparr>app_state := (app_state sess)
                       \<lparr>decision := Some ''feedback'', feedback := Some feedback_text,
                        stage := on_feedback\<rparr>,
                     show_feedback_box := False\<rparr>)
         else Returned sess)
    | _ \<Rightarrow> Returned sess)"

text \<open>The "Deployed" branch: the reset button replaces the record and clears the flags.\<close>

definition deployed_stage :: "event \<Rightarrow> session \<Rightarrow> session outcome" where
  "deployed_stage ev sess = header_language sess (case ev of
      StartNewWorkflow \<Rightarrow>
        Returned (sess\<lparr>app_state := initial_state, show_feedback_box := False,
                    show_llm_details := False\<rparr>)
    | _ \<Rightarrow> Returned sess)"

subsection \<open>First revision (streamlit.py)\<close>

text \<open>The "QA Testing" branch: a QA that did not pass goes back to "Code Review".\<close>

definition qa_testing_stage :: "llm \<Rightarrow> session \<Rightarrow> session outcome" where
  "qa_testing_stage l sess = header_language sess
    (case qa_testing l (app_state sess) of
       Raised e s' \<Rightarrow> Raised e (sess\<lparr>app_state := s'\<rparr>)
     | Returned s' \<Rightarrow>
         Returned (sess\<lparr>app_state :=
           (if decision s' = Some ''passed'' then s'\<lparr>stage := Deploy\<rparr>
            else s'\<lparr>stage := CodeReview\<rparr>)\<rparr>))"

definition deploy_stage :: "session \<Rightarrow> session outcome" where
  "deploy_stage sess = header_language sess
    (case deploy (app_state sess) of
       Raised e s' \<Rightarrow> Raised e (sess\<lparr>app_state := s'\<rparr>)
     | Returned s' \<Rightarrow> Returned (sess\<lparr>app_state := s'\<lparr>stage := Deployed\<rparr>\<rparr>))"

definition main :: "llm \<Rightarrow> event \<Rightarrow> session \<Rightarrow> session outcome" where
  "main l ev sess =
    (let current_state = app_state sess in
     if display_area_raises current_state then Raised AttributeError sess
     else (case stage current_state of
        UserInput \<Rightarrow> user_input_stage ev sess
      | GenerateUserStories \<Rightarrow> store sess (generate_user_stories l current_state)
      | ProductOwnerReview \<Rightarrow>
          review_stage (product_owner_review l current_state) CreateDesignDocs ReviseUserStories ev sess
      | ReviseUserStories \<Rightarrow> store sess (revise_user_stories l current_state)
      | CreateDesignDocs \<Rightarrow> store sess (create_design_docs l current_state)
      | DesignReview \<Rightarrow>
          review_stage (design_review l current_state) GenerateCode ReviseDesignDocs ev sess
      | ReviseDesignDocs \<Rightarrow> store sess (revise_design_docs l current_state)
      | GenerateCode \<Rightarrow> header_language sess (store sess (generate_code l current_state))
      | CodeReview \<Rightarrow> header_language sess
          (review_stage (code_review l current_state) SecurityReview FixCodeReview ev sess)
      | FixCodeReview \<Rightarrow> header_language sess (store sess (fix_code_review l current_state))
      | SecurityReview \<Rightarrow> header_language sess
          (review_stage (security_review l current_state) WriteTestCases FixSecurity ev sess)
      | FixSecurity \<Rightarrow> header_language sess (store sess (fix_security_issues l current_state))
      | WriteTestCases \<Rightarrow> header_language sess (store sess (write_test_cases l current_state))
      | TestCaseReview \<Rightarrow> header_language sess
          (review_stage (review_test_cases l current_state) QATesting FixTestCases ev sess)
      | FixTestCases \<Rightarrow> header_language sess (store sess (fix_test_cases l current_state))
      | QATesting \<Rightarrow> qa_testing_stage l sess
      | Deploy \<Rightarrow> deploy_stage sess
      | Deployed \<Rightarrow> deployed_stage ev sess
      | DeploymentFailed \<Rightarrow> Returned sess))"

text \<open>The sessions the first revision can be in, after a run that ended or raised.\<close>

inductive reachable :: "session \<Rightarrow> bool" where
  start: "reachable initial_session"
| run: "reachable sess \<Longrightarrow> reachable (store_of (main l ev sess))"

subsection \<open>Final revision (streamlit_final.py)\<close>

text \<open>The "QA Testing" branch: a QA that did not pass goes back to "Generate Code".\<close>

definition qa_testing_stage_final :: "llm \<Rightarrow> session \<Rightarrow> session outcome" where
  "qa_testing_stage_final l sess =
    (case qa_testing_final (show_llm_details sess) l (app_state sess) of
       Raised e s' \<Rightarrow> Raised e (sess\<lparr>app_state := s'\<rparr>)
     | Returned s' \<Rightarrow>
         Returned (sess\<lparr>app_state :=
           (if decision s' = Some ''passed'' then s'\<lparr>stage := Deploy\<rparr>
            else s'\<lparr>stage := GenerateCode\<rparr>)\<rparr>))"

text \<open>
  The "Deploy" branch calls \<open>deploy(current_state)\<close> (so \<open>show_llm_details\<close> is
  \<open>False\<close>) and then writes "Deployed" whatever \<open>deploy\<close> returned; the test
  \<open>'deploy' in locals()\<close> holds at module level.
\<close>

definition deploy_stage_final :: "llm \<Rightarrow> session \<Rightarrow> session outcome" where
  "deploy_stage_final l sess = header_language sess
    (case deploy_final False l (app_state sess) of
       Raised e s' \<Rightarrow> Raised e (sess\<lparr>app_state := s'\<rparr>)
     | Returned s' \<Rightarrow> Returned (sess\<lparr>app_state := s'\<lparr>stage := Deployed\<rparr>\<rparr>))"

definition main_final :: "llm \<Rightarrow> event \<Rightarrow> session \<Rightarrow> session outcome" where
  "main_final l ev sess =
    (let current_state = app_state sess in
     if display_area_raises current_state then Raised AttributeError sess
     else (case stage current_state of
        UserInput \<Rightarrow> user_input_stage ev sess
      | GenerateUserStories \<Rightarrow> store sess (generate_user_stories_final l current_state)
      | ProductOwnerReview \<Rightarrow>
          review_stage (product_owner_review_final l current_state)
            CreateDesignDocs ReviseUserStories ev sess
      | ReviseUserStories \<Rightarrow> store sess (revise_user_stories_final l current_state)
      | CreateDesignDocs \<Rightarrow> store sess (create_design_docs_final l current_state)
      | DesignReview \<Rightarrow>
          review_stage (design_review_final l current_state) GenerateCode ReviseDesignDocs ev sess
      | ReviseDesignDocs \<Rightarrow> store sess (revise_design_docs_final l current_state)
      | GenerateCode \<Rightarrow> header_language sess (store sess (generate_code_final l current_state))
      | CodeReview \<Rightarrow> header_language sess
          (review_stage (code_review_final l current_state) SecurityReview FixCodeReview ev sess)
      | FixCodeReview \<Rightarrow>
          header_language sess (store sess (fix_code_review_final l current_state))
      | SecurityReview \<Rightarrow> header_language sess
          (review_stage (security_review_final l current_state) WriteTestCases FixSecurity ev sess)
      | FixSecurity \<Rightarrow>
          header_language sess (store sess (fix_security_issues_final l current_state))
      | WriteTestCases \<Rightarrow>
          header_language sess (store sess (write_test_cases_final l current_state))
      | TestCaseReview \<Rightarrow> header_language sess
          (review_stage (review_test_cases_final l current_state) QATesting FixTestCases ev sess)
      | FixTestCases \<Rightarrow>
          header_language sess (store sess (fix_test_cases_final l current_state))
      | QATesting \<Rightarrow> qa_testing_stage_final l sess
      | Deploy \<Rightarrow> deploy_stage_final l sess
      | Deployed \<Rightarrow> deployed_stage ev sess
      | DeploymentFailed \<Rightarrow> Returned sess))"

section \<open>What the specification declares\<close>

text \<open>
  The transition table of the specification, with its stage names mapped to the values of
  the code (InitialInput is "User Input", StoryReview is "Product Owner Review", DesignGen
  is "Create Design Docs", CodeGen is "Generate Code", FixCode is "Fix Code Review", QA is
  "QA Testing", and so on): the targets of the columns "On success" and "On missing
  precondition".
\<close>

fun table_successors :: "stage \<Rightarrow> stage list" where
  "table_successors UserInput = [GenerateUserStories, UserInput]"
| "table_successors GenerateUserStories = [ProductOwnerReview]"
| "table_successors ProductOwnerReview = [CreateDesignDocs, ReviseUserStories]"
| "table_successors ReviseUserStories = [ProductOwnerReview]"
| "table_successors CreateDesignDocs = [DesignReview]"
| "table_successors DesignReview = [GenerateCode, ReviseDesignDocs]"
| "table_successors ReviseDesignDocs = [DesignReview]"
| "table_successors GenerateCode = [CodeReview, UserInput]"
| "table_successors CodeReview = [SecurityReview, FixCodeReview]"
| "table_successors FixCodeReview = [CodeReview]"
| "table_successors SecurityReview = [WriteTestCases, FixSecurity]"
| "table_successors FixSecurity = [SecurityReview]"
| "table_successors WriteTestCases = [TestCaseReview]"
| "table_successors TestCaseReview = [QATesting, FixTestCases]"
| "table_successors FixTestCases = [TestCaseReview]"
| "table_successors QATesting = [Deploy, GenerateCode, QATesting]"
| "table_successors Deploy = [Deployed, DeploymentFailed]"
| "table_successors Deployed = []"
| "table_successors DeploymentFailed = []"

text \<open>
  A declared successor is a target of the table or the stage itself: the specification lets
  every stage stay where it is (an automatic stage whose service is unavailable, a decision
  stage without a verdict, a terminal stage).
\<close>

definition declared_successor :: "stage \<Rightarrow> stage \<Rightarrow> bool" where
  "declared_successor s t = (t = s \<or> t \<in> set (table_successors s))"

text \<open>The values the type hint of \<open>decision\<close> in \<open>SDLCState\<close> allows besides \<open>None\<close>.\<close>

definition declared_decisions :: "string list" where
  "declared_decisions = [''approved'', ''feedback'', ''failed'', ''passed'']"


section \<open>Example records\<close>

text \<open>A session waiting at "QA Testing" with code and test cases for Python.\<close>

definition qa_ready :: session where
  "qa_ready = initial_session\<lparr>app_state := initial_state\<lparr>stage := QATesting,
      target_language := Some ''python'', code := Some ''print(1)'',
      test_cases := Some ''assert True''\<rparr>\<rparr>"

text \<open>A record whose target language is Python and nothing else.\<close>

definition python_record :: SDLCState where
  "python_record = initial_state\<lparr>target_language := Some ''python''\<rparr>"

text \<open>A record entering "Deploy" after a QA that failed.\<close>

definition failed_qa_record :: SDLCState where
  "failed_qa_record = initial_state\<lparr>stage := Deploy, target_language := Some ''python'',
     code := Some ''print(1)'', test_cases := Some ''assert True'',
     decision := Some ''failed'', feedback := Some ''no edge cases''\<rparr>"

section \<open>Predicates used in the statements\<close>

text \<open>A handler returned, and the record it returned has no decision and no feedback.\<close>

definition verdict_cleared :: "SDLCState outcome \<Rightarrow> bool" where
  "verdict_cleared r = (case r of
      Returned s' \<Rightarrow> decision s' = None \<and> feedback s' = None
    | Raised e s' \<Rightarrow> False)"

section \<open>Properties of the string functions\<close>

lemma lstrip_nonspace: "\<not> isspace c \<Longrightarrow> lstrip (c # xs) = c # xs"
  by (simp add: lstrip_def)

lemma rstrip_snoc_nonspace: "\<not> isspace c \<Longrightarrow> rstrip (xs @ [c]) = xs @ [c]"
  by (simp add: rstrip_def)

lemma rstrip_append_spaces: "\<forall>c\<in>set w. isspace c \<Longrightarrow> rstrip (xs @ w) = rstrip xs"
  by (simp add: rstrip_def dropWhile_append)

lemma lstrip_spaces_append: "\<forall>c\<in>set w. isspace c \<Longrightarrow> lstrip (w @ xs) = lstrip xs"
  by (simp add: lstrip_def dropWhile_append)

lemma rstrip_decomp: "\<exists>w. s = rstrip s @ w \<and> (\<forall>c\<in>set w. isspace c)"
proof -
  have "rev s = takeWhile isspace (rev s) @ dropWhile isspace (rev s)" by simp
  then have "s = rev (dropWhile isspace (rev s)) @ rev (takeWhile isspace (rev s))"
    by (metis rev_append rev_rev_ident)
  moreover have "\<forall>c\<in>set (rev (takeWhile isspace (rev s))). isspace c"
    by (auto dest: set_takeWhileD)
  ultimately show ?thesis unfolding rstrip_def by blast
qed

lemma strip_spaces_append: "\<forall>c\<in>set w. isspace c \<Longrightarrow> strip (w @ xs) = strip xs"
  by (simp add: strip_def lstrip_spaces_append)

lemma strip_append_spaces: "\<forall>c\<in>set w. isspace c \<Longrightarrow> strip (xs @ w) = strip xs"
proof -
  assume w: "\<forall>c\<in>set w. isspace c"
  show ?thesis
  proof (cases "\<forall>c\<in>set xs. isspace c")
    case True
    then have "lstrip (xs @ w) = []" "lstrip xs = []" using w by (auto simp: lstrip_def)
    then show ?thesis by (simp add: strip_def)
  next
    case False
    then have "lstrip (xs @ w) = lstrip xs @ w" by (auto simp: lstrip_def dropWhile_append)
    then show ?thesis using w by (simp add: strip_def rstrip_append_spaces)
  qed
qed

lemma isspace_backtick [simp]: "\<not> isspace (CHR 0x60)"
  by (simp add: isspace_def)

lemma isspace_newline [simp]: "isspace CHR ''\<newline>''"
  by (simp add: isspace_def)

lemma rstrip_append:
  "rstrip (a @ b) = (if \<forall>c\<in>set b. isspace c then rstrip a else a @ rstrip b)"
  by (simp add: rstrip_def dropWhile_append)

lemma rstrip_spaces: "\<forall>c\<in>set b. isspace c \<Longrightarrow> rstrip b = []"
  by (simp add: rstrip_def)

lemma strip_fence_tag: "strip (''```'' @ x) = ''```'' @ rstrip x"
proof -
  have "lstrip (''```'' @ x) = ''```'' @ x" by (simp add: lstrip_nonspace)
  moreover have "rstrip (''```'' @ x) = ''```'' @ rstrip x"
  proof (cases "\<forall>c\<in>set x. isspace c")
    case True
    moreover have "rstrip ''```'' = ''```''" by (simp add: rstrip_def)
    ultimately show ?thesis using rstrip_append [of "''```''" x] by (simp add: rstrip_spaces)
  next
    case False
    then show ?thesis using rstrip_append [of "''```''" x] by auto
  qed
  ultimately show ?thesis by (simp add: strip_def)
qed

lemma strip_fenced: "strip (''```'' @ m @ ''```'') = ''```'' @ m @ ''```''"
proof -
  have "lstrip (''```'' @ m @ ''```'') = ''```'' @ m @ ''```''" by (simp add: lstrip_nonspace)
  moreover have "rstrip ((''```'' @ m @ ''``'') @ [CHR 0x60]) = (''```'' @ m @ ''``'') @ [CHR 0x60]"
    by (rule rstrip_snoc_nonspace) simp
  ultimately show ?thesis by (simp add: strip_def)
qed

lemma unfence_body:
  assumes w: "\<forall>c\<in>set w. isspace c"
  shows "strip (let content = w @ ''\<newline>'' @ s @ ''\<newline>```'' in
           if endswith content ''```'' then take (length content - 3) content else content) = strip s"
proof -
  let ?c = "w @ ''\<newline>'' @ s @ ''\<newline>```''"
  have e: "endswith ?c ''```''"
    unfolding endswith_def suffix_def by (rule exI [of _ "w @ ''\<newline>'' @ s @ ''\<newline>''"]) simp
  have "?c = (w @ ''\<newline>'' @ s @ ''\<newline>'') @ ''```''" by simp
  then have t: "take (length ?c - 3) ?c = w @ ''\<newline>'' @ s @ ''\<newline>''"
    by (metis add_diff_cancel_right' append_eq_conv_conj length_append list.size(3,4) One_nat_def numeral_3_eq_3 Suc_eq_plus1 add.commute plus_1_eq_Suc)
  have "strip (w @ ''\<newline>'' @ s @ ''\<newline>'') = strip ((''\<newline>'' @ s) @ ''\<newline>'')"
    using strip_spaces_append [OF w] by simp
  also have "\<dots> = strip (''\<newline>'' @ s)" by (rule strip_append_spaces) simp
  also have "\<dots> = strip s" by (rule strip_spaces_append) simp
  finally show ?thesis using e t by (simp add: Let_def)
qed

lemma clean_with_language:
  "clean_llm_code_output (''```'' @ lower L @ ''\<newline>'' @ s @ ''\<newline>```'') (Some L) = strip s"
proof -
  let ?x = "lower L"
  let ?c = "''```'' @ ?x @ ''\<newline>'' @ s @ ''\<newline>```''"
  obtain w where x: "?x = rstrip ?x @ w" and w: "\<forall>c\<in>set w. isspace c"
    using rstrip_decomp by blast
  have c0: "strip ?c = ?c"
    using strip_fenced [of "?x @ ''\<newline>'' @ s @ ''\<newline>''"] by simp
  show ?thesis
  proof (cases "L = []")
    case True
    then have x0: "?x = []" by (simp add: lower_def)
    have tag: "strip (''```'' @ []) = ''```''" using strip_fence_tag [of "[]"] by (simp add: rstrip_def)
    have "\<not> truthy (Some L)" using True by (simp add: truthy_def)
    moreover have "startswith ?c ''```''" by (simp add: startswith_def)
    moreover have "drop 3 ?c = [] @ ''\<newline>'' @ s @ ''\<newline>```''" using x0 by simp
    ultimately have "clean_llm_code_output ?c (Some L) =
        strip (let content = [] @ ''\<newline>'' @ s @ ''\<newline>```'' in
           if endswith content ''```'' then take (length content - 3) content else content)"
      unfolding clean_llm_code_output_def c0 Let_def by simp
    then show ?thesis using unfence_body [of "[]" s] by simp
  next
    case False
    let ?tag = "''```'' @ rstrip ?x"
    have tag: "strip (''```'' @ ?x) = ?tag" by (rule strip_fence_tag)
    have c: "?c = ?tag @ (w @ ''\<newline>'' @ s @ ''\<newline>```'')" using x by simp
    have t: "truthy (Some L)" using False by (simp add: truthy_def)
    have sw: "startswith ?c ?tag" unfolding startswith_def by (subst c) simp
    have dr: "drop (length ?tag) ?c = w @ ''\<newline>'' @ s @ ''\<newline>```''"
      by (subst c) simp
    have "clean_llm_code_output ?c (Some L) =
        strip (let content = w @ ''\<newline>'' @ s @ ''\<newline>```'' in
           if endswith content ''```'' then take (length content - 3) content else content)"
      unfolding clean_llm_code_output_def c0 Let_def using False t sw dr tag by simp
    then show ?thesis using unfence_body [OF w, of s] by simp
  qed
qed

lemma clean_without_language:
  "clean_llm_code_output (''```\<newline>'' @ s @ ''\<newline>```'') None = strip s"
proof -
  let ?c = "''```'' @ ''\<newline>'' @ s @ ''\<newline>```''"
  have c0: "strip ?c = ?c" using strip_fenced [of "''\<newline>'' @ s @ ''\<newline>''"] by simp
  have "\<not> truthy None" by (simp add: truthy_def)
  moreover have "startswith ?c ''```''" by (simp add: startswith_def)
  moreover have "drop 3 ?c = [] @ ''\<newline>'' @ s @ ''\<newline>```''" by simp
  ultimately have "clean_llm_code_output ?c None =
      strip (let content = [] @ ''\<newline>'' @ s @ ''\<newline>```'' in
         if endswith content ''```'' then take (length content - 3) content else content)"
    unfolding clean_llm_code_output_def c0 Let_def by simp
  then show ?thesis using unfence_body [of "[]" s] by simp
qed

text \<open>
  C10. \<open>clean_llm_code_output\<close> undoes Markdown code fencing: applied to the text
  made of an opening fence with the lower-cased language name \<open>L\<close>, a newline, \<open>s\<close>,
  a newline and a closing fence, with language \<open>L\<close>, it returns \<open>s\<close> stripped of
  leading and trailing whitespace; the same holds for a bare opening fence when no language
  is given. Neither the absence of a triple backtick in \<open>s\<close> nor the non-emptiness of
  \<open>L\<close> is needed.
\<close>

theorem clean_llm_code_output_unfences:
  "clean_llm_code_output (''```'' @ lower L @ ''\<newline>'' @ s @ ''\<newline>```'') (Some L) = strip s
   \<and> clean_llm_code_output (''```\<newline>'' @ s @ ''\<newline>```'') None = strip s"
  using clean_with_language [of L s] clean_without_language [of s] by blast

section \<open>The QA stage\<close>

lemma qa_testing_final_returns: "\<exists>s'. qa_testing_final d l s = Returned s'"
  by (auto simp: qa_testing_final_def Let_def split: llm.splits outcome.splits)

lemma qa_testing_stage_final_not_passed:
  assumes "decision (store_of (qa_testing_final (show_llm_details sess) l (app_state sess))) \<noteq> Some ''passed''"
  shows "\<exists>sess'. qa_testing_stage_final l sess = Returned sess' \<and> stage (app_state sess') = GenerateCode"
proof -
  obtain s' where r: "qa_testing_final (show_llm_details sess) l (app_state sess) = Returned s'"
    using qa_testing_final_returns by blast
  with assms have "decision s' \<noteq> Some ''passed''" by simp
  with r show ?thesis by (simp add: qa_testing_stage_final_def)
qed

text \<open>
  C2, as amended. In the final revision, whenever the QA stage yields the decision
  "failed", for whatever reason, the run of the page script at "QA Testing" returns with
  the stage "Generate Code" (so neither "Fix Code Review" nor a review stage).
\<close>

theorem qa_failed_routes_to_generate_code:
  assumes "stage (app_state sess) = QATesting"
    and "\<not> display_area_raises (app_state sess)"
    and "decision (store_of (qa_testing_final (show_llm_details sess) l (app_state sess))) = Some ''failed''"
  shows "\<exists>sess'. main_final l ev sess = Returned sess' \<and> stage (app_state sess') = GenerateCode"
proof -
  have "main_final l ev sess = qa_testing_stage_final l sess"
    using assms(1,2) by (simp add: main_final_def)
  moreover have "decision (store_of (qa_testing_final (show_llm_details sess) l (app_state sess))) \<noteq> Some ''passed''"
    using assms(3) by simp
  ultimately show ?thesis using qa_testing_stage_final_not_passed by simp
qed

theorem qa_failed_routes_to_generate_code_witness:
  "stage (app_state qa_ready) = QATesting
   \<and> \<not> display_area_raises (app_state qa_ready)
   \<and> decision (store_of (qa_testing_final (show_llm_details qa_ready)
          (Responds ''FAIL: no edge cases'') (app_state qa_ready))) = Some ''failed''
   \<and> (\<exists>sess'. main_final (Responds ''FAIL: no edge cases'') NoButton qa_ready = Returned sess'
          \<and> stage (app_state sess') = GenerateCode)"
proof -
  have a: "stage (app_state qa_ready) = QATesting" by code_simp
  have b: "\<not> display_area_raises (app_state qa_ready)" by code_simp
  have c: "decision (store_of (qa_testing_final (show_llm_details qa_ready)
          (Responds ''FAIL: no edge cases'') (app_state qa_ready))) = Some ''failed''"
    by code_simp
  show ?thesis using a b c qa_failed_routes_to_generate_code [OF a b c, of NoButton] by blast
qed

text \<open>
  The first revision sends the same failed QA to "Code Review", a review stage.
\<close>

theorem first_revision_qa_failed_routes_to_code_review:
  "decision (app_state (store_of (main (Responds ''FAIL: no edge cases'') NoButton qa_ready)))
     = Some ''failed''
   \<and> stage (app_state (store_of (main (Responds ''FAIL: no edge cases'') NoButton qa_ready)))
     = CodeReview"
  by code_simp

section \<open>The review of test cases\<close>

text \<open>
  C6. At "Test Case Review" the reply "approved: tests look fine" is not taken as an
  approval: \<open>review_test_cases\<close> compares the whole reply with "approved", where the
  other review functions (here \<open>code_review\<close>) test the prefix. Both revisions agree.
\<close>

theorem review_test_cases_rejects_approved_with_rationale:
  "decision (store_of (review_test_cases (Responds ''approved: tests look fine'') python_record))
     = Some ''feedback''
   \<and> decision (store_of (review_test_cases_final (Responds ''approved: tests look fine'') python_record))
     = Some ''feedback''
   \<and> decision (store_of (code_review (Responds ''approved: tests look fine'') python_record))
     = Some ''approved''
   \<and> decision (store_of (code_review_final (Responds ''approved: tests look fine'') python_record))
     = Some ''approved''"
  by code_simp

section \<open>The QA stage when the Generation Service raises\<close>

lemma qa_testing_final_error:
  "truthy (code s) \<Longrightarrow> truthy (test_cases s) \<Longrightarrow>
   \<exists>s'. qa_testing_final d (Fails e) s = Returned s' \<and> decision s' = Some ''error''"
  by (simp add: qa_testing_final_def qa_except_def log_entry_def Let_def)

text \<open>
  C8. In the final revision, when the Generation Service call inside \<open>qa_testing\<close>
  raises (code and test cases being present), the handler returns with the decision
  "error", which is not one of the declared decisions, and the "QA Testing" branch then
  sets the stage to "Generate Code", exactly as it does for every outcome whose decision
  is "failed".
\<close>

theorem qa_exception_sets_undeclared_decision:
  assumes "truthy (code (app_state sess))" and "truthy (test_cases (app_state sess))"
  shows "(\<exists>s'. qa_testing_final (show_llm_details sess) (Fails e) (app_state sess) = Returned s'
            \<and> decision s' = Some ''error'')
       \<and> ''error'' \<notin> set declared_decisions
       \<and> (\<exists>sess'. qa_testing_stage_final (Fails e) sess = Returned sess'
            \<and> stage (app_state sess') = GenerateCode)
       \<and> (\<forall>l. decision (store_of (qa_testing_final (show_llm_details sess) l (app_state sess)))
               = Some ''failed''
            \<longrightarrow> (\<exists>sess'. qa_testing_stage_final l sess = Returned sess'
                   \<and> stage (app_state sess') = GenerateCode))"
proof -
  have 1: "\<exists>s'. qa_testing_final (show_llm_details sess) (Fails e) (app_state sess) = Returned s'
            \<and> decision s' = Some ''error''"
    using assms by (rule qa_testing_final_error)
  have 2: "''error'' \<notin> set declared_decisions" by (simp add: declared_decisions_def)
  from 1 have "decision (store_of (qa_testing_final (show_llm_details sess) (Fails e) (app_state sess)))
      \<noteq> Some ''passed''" by auto
  then have 3: "\<exists>sess'. qa_testing_stage_final (Fails e) sess = Returned sess'
            \<and> stage (app_state sess') = GenerateCode"
    by (rule qa_testing_stage_final_not_passed)
  have 4: "\<forall>l. decision (store_of (qa_testing_final (show_llm_details sess) l (app_state sess)))
               = Some ''failed''
            \<longrightarrow> (\<exists>sess'. qa_testing_stage_final l sess = Returned sess'
                   \<and> stage (app_state sess') = GenerateCode)"
    using qa_testing_stage_final_not_passed [of sess] by simp
  from 1 2 3 4 show ?thesis by blast
qed

theorem qa_exception_sets_undeclared_decision_witness:
  "truthy (code (app_state qa_ready)) \<and> truthy (test_cases (app_state qa_ready))
   \<and> decision (store_of (qa_testing_final (show_llm_details qa_ready) (Fails ''timeout'')
         (app_state qa_ready))) = Some ''error''
   \<and> stage (app_state (store_of (qa_testing_stage_final (Fails ''timeout'') qa_ready))) = GenerateCode
   \<and> decision (store_of (qa_testing_final (show_llm_details qa_ready) (Responds ''FAIL: gaps'')
         (app_state qa_ready))) = Some ''failed''
   \<and> stage (app_state (store_of (qa_testing_stage_final (Responds ''FAIL: gaps'') qa_ready)))
       = GenerateCode"
proof -
  have a: "truthy (code (app_state qa_ready))" by code_simp
  have b: "truthy (test_cases (app_state qa_ready))" by code_simp
  have c: "decision (store_of (qa_testing_final (show_llm_details qa_ready) (Responds ''FAIL: gaps'')
         (app_state qa_ready))) = Some ''failed''" by code_simp
  from qa_exception_sets_undeclared_decision [OF a b, of "''timeout''"] c a b
  show ?thesis by fastforce
qed

section \<open>The deploy stage\<close>

text \<open>
  C3, as amended. In the final revision, \<open>deploy\<close> applied to a record whose decision is
  not "passed" and whose feedback is present returns the record with the stage
  "Deployment Failed" and with the feedback replaced by the failure reason, which is the
  text "Deployment halted due to failed QA testing. Reason: " followed by the QA feedback;
  nothing else changes and the Generation Service plays no part. \<open>deploy\<close> leaves the
  stage "Deployed" exactly when the decision is "passed".
\<close>

theorem deploy_final_guard:
  "(decision s \<noteq> Some ''passed'' \<and> feedback s = Some qa_feedback \<longrightarrow>
      deploy_final d l s = Returned (s\<lparr>stage := DeploymentFailed,
         feedback := Some (''Deployment halted due to failed QA testing. Reason: '' @ qa_feedback)\<rparr>))
   \<and> (stage (store_of (deploy_final d l s)) = Deployed \<longleftrightarrow> decision s = Some ''passed'')"
  by (auto simp: deploy_final_def log_entry_def split: option.splits llm.splits)

theorem deploy_final_guard_witness:
  "decision failed_qa_record \<noteq> Some ''passed'' \<and> feedback failed_qa_record = Some ''no edge cases''
   \<and> deploy_final False NoLLM failed_qa_record = Returned (failed_qa_record\<lparr>stage := DeploymentFailed,
         feedback := Some ''Deployment halted due to failed QA testing. Reason: no edge cases''\<rparr>)
   \<and> stage (store_of (deploy_final False NoLLM (failed_qa_record\<lparr>decision := Some ''passed''\<rparr>)))
       = Deployed"
proof -
  have a: "decision failed_qa_record \<noteq> Some ''passed''" by code_simp
  have b: "feedback failed_qa_record = Some ''no edge cases''" by code_simp
  have c: "decision (failed_qa_record\<lparr>decision := Some ''passed''\<rparr>) = Some ''passed''" by simp
  from deploy_final_guard [of failed_qa_record "''no edge cases''" False NoLLM] a b
    deploy_final_guard [of "failed_qa_record\<lparr>decision := Some ''passed''\<rparr>" "[]" False NoLLM] c
  show ?thesis by simp
qed

text \<open>
  The claim as stated fails: the first revision's \<open>deploy\<close> has no guard and ends in
  "Deployed"; the final revision's \<open>deploy\<close> raises, recording no reason, when the
  feedback is absent; and the "Deploy" branch of the final page script writes "Deployed"
  over what \<open>deploy\<close> returned.
\<close>

theorem deploy_guard_counterexample:
  "decision failed_qa_record \<noteq> Some ''passed''
   \<and> stage (store_of (deploy failed_qa_record)) = Deployed
   \<and> decision (failed_qa_record\<lparr>feedback := None\<rparr>) \<noteq> Some ''passed''
   \<and> deploy_final False NoLLM (failed_qa_record\<lparr>feedback := None\<rparr>)
       = Raised TypeError (failed_qa_record\<lparr>feedback := None, stage := DeploymentFailed\<rparr>)
   \<and> stage (app_state (store_of (main_final NoLLM NoButton
         (initial_session\<lparr>app_state := failed_qa_record\<rparr>)))) = Deployed"
  by code_simp

section \<open>Revision stages\<close>

lemma skip_first:
  assumes "\<not> truthy (feedback s)" and "target_language s \<noteq> None"
  shows "revise_user_stories l s = Returned (s\<lparr>stage := ProductOwnerReview\<rparr>)"
    and "revise_design_docs l s = Returned (s\<lparr>stage := DesignReview\<rparr>)"
    and "fix_code_review l s = Returned (s\<lparr>stage := CodeReview\<rparr>)"
    and "fix_security_issues l s = Returned (s\<lparr>stage := SecurityReview\<rparr>)"
    and "fix_test_cases l s = Returned (s\<lparr>stage := TestCaseReview\<rparr>)"
  using assms
  by (simp_all add: revise_user_stories_def revise_design_docs_def fix_code_review_def
        fix_security_issues_def fix_test_cases_def needs_language_def)

lemma skip_final:
  assumes "\<not> truthy (feedback s)" and "target_language s \<noteq> None"
  shows "revise_user_stories_final l s = Returned (s\<lparr>stage := ProductOwnerReview\<rparr>)"
    and "revise_design_docs_final l s =
           Returned (log_entry ''revise_design_docs''
             ''No feedback provided. Skipping design document revision.'' (s\<lparr>stage := DesignReview\<rparr>))"
    and "fix_code_review_final l s =
           Returned (log_entry ''fix_code_review''
             ''No feedback provided. Skipping code fixing.'' (s\<lparr>stage := CodeReview\<rparr>))"
    and "fix_security_issues_final l s = Returned (s\<lparr>stage := SecurityReview\<rparr>)"
    and "fix_test_cases_final l s =
           Returned (log_entry ''fix_test_cases''
             ''No feedback provided. Skipping test case fixing.'' (s\<lparr>stage := TestCaseReview\<rparr>))"
  using assms
  by (simp_all add: revise_user_stories_final_def revise_design_docs_final_def
        fix_code_review_final_def fix_security_issues_final_def fix_test_cases_final_def
        needs_language_def)

text \<open>
  C4, as amended. A revision handler applied to a record whose feedback is absent or empty
  (and whose target language is set) returns, whatever the Generation Service would do,
  the same record with the stage set to the corresponding review stage: every artifact is
  unchanged. In the first revision, and for \<open>revise_user_stories\<close> and
  \<open>fix_security_issues\<close> in the final revision, the history is unchanged too; in the
  final revision \<open>revise_design_docs\<close>, \<open>fix_code_review\<close> and
  \<open>fix_test_cases\<close> append one entry that records the skip.
\<close>

theorem revision_without_feedback_skips:
  assumes "\<not> truthy (feedback s)" and "target_language s \<noteq> None"
  shows "revise_user_stories l s = Returned (s\<lparr>stage := ProductOwnerReview\<rparr>)
       \<and> revise_design_docs l s = Returned (s\<lparr>stage := DesignReview\<rparr>)
       \<and> fix_code_review l s = Returned (s\<lparr>stage := CodeReview\<rparr>)
       \<and> fix_security_issues l s = Returned (s\<lparr>stage := SecurityReview\<rparr>)
       \<and> fix_test_cases l s = Returned (s\<lparr>stage := TestCaseReview\<rparr>)
       \<and> revise_user_stories_final l s = Returned (s\<lparr>stage := ProductOwnerReview\<rparr>)
       \<and> fix_security_issues_final l s = Returned (s\<lparr>stage := SecurityReview\<rparr>)
       \<and> revise_design_docs_final l s =
           Returned (s\<lparr>stage := DesignReview,
             history := history s @ [(''revise_design_docs'',
               ''No feedback provided. Skipping design document revision.'')]\<rparr>)
       \<and> fix_code_review_final l s =
           Returned (s\<lparr>stage := CodeReview,
             history := history s @ [(''fix_code_review'',
               ''No feedback provided. Skipping code fixing.'')]\<rparr>)
       \<and> fix_test_cases_final l s =
           Returned (s\<lparr>stage := TestCaseReview,
             history := history s @ [(''fix_test_cases'',
               ''No feedback provided. Skipping test case fixing.'')]\<rparr>)"
  using skip_first [OF assms, of l] skip_final [OF assms, of l] by (simp add: log_entry_def)

theorem revision_without_feedback_skips_witness:
  "\<not> truthy (feedback python_record) \<and> target_language python_record \<noteq> None
   \<and> fix_code_review (Fails ''down'') python_record = Returned (python_record\<lparr>stage := CodeReview\<rparr>)
   \<and> fix_code_review_final (Fails ''down'') python_record =
        Returned (python_record\<lparr>stage := CodeReview,
          history := [(''fix_code_review'', ''No feedback provided. Skipping code fixing.'')]\<rparr>)"
proof -
  have a: "\<not> truthy (feedback python_record)" by code_simp
  have b: "target_language python_record \<noteq> None" by code_simp
  have c: "history python_record = []" by code_simp
  from revision_without_feedback_skips [OF a b, of "Fails ''down''"] a b c
  show ?thesis by simp
qed

text \<open>The final revision's skip in \<open>revise_design_docs\<close> makes the history longer.\<close>

theorem revision_skip_grows_history_counterexample:
  "feedback python_record = None
   \<and> length (history (store_of (revise_design_docs_final NoLLM python_record)))
       = length (history python_record) + 1"
  by code_simp


lemma generation_keeps_verdict:
  "decision (store_of (generate_user_stories l s)) = decision s \<and> feedback (store_of (generate_user_stories l s)) = feedback s"
  "decision (store_of (create_design_docs l s)) = decision s \<and> feedback (store_of (create_design_docs l s)) = feedback s"
  "decision (store_of (generate_code l s)) = decision s \<and> feedback (store_of (generate_code l s)) = feedback s"
  "decision (store_of (write_test_cases l s)) = decision s \<and> feedback (store_of (write_test_cases l s)) = feedback s"
  by (auto simp: generate_user_stories_def create_design_docs_def generate_code_def
        write_test_cases_def needs_language_def split: llm.splits)

lemma generation_final_keeps_verdict:
  "decision (store_of (generate_user_stories_final l s)) = decision s \<and> feedback (store_of (generate_user_stories_final l s)) = feedback s"
  "decision (store_of (create_design_docs_final l s)) = decision s \<and> feedback (store_of (create_design_docs_final l s)) = feedback s"
  "decision (store_of (generate_code_final l s)) = decision s \<and> feedback (store_of (generate_code_final l s)) = feedback s"
  "decision (store_of (write_test_cases_final l s)) = decision s \<and> feedback (store_of (write_test_cases_final l s)) = feedback s"
  by (auto simp: generate_user_stories_final_def create_design_docs_final_def generate_code_final_def
        write_test_cases_final_def needs_language_def log_entry_def Let_def split: llm.splits)

lemma revision_clears_verdict:
  assumes "truthy (feedback s)" and "target_language s \<noteq> None"
  shows "verdict_cleared (revise_user_stories (Responds r) s)"
    and "verdict_cleared (revise_design_docs (Responds r) s)"
    and "verdict_cleared (fix_code_review (Responds r) s)"
    and "verdict_cleared (fix_security_issues (Responds r) s)"
    and "verdict_cleared (fix_test_cases (Responds r) s)"
    and "verdict_cleared (revise_user_stories_final (Responds r) s)"
    and "verdict_cleared (revise_design_docs_final (Responds r) s)"
    and "verdict_cleared (fix_code_review_final (Responds r) s)"
    and "verdict_cleared (fix_security_issues_final (Responds r) s)"
    and "verdict_cleared (fix_test_cases_final (Responds r) s)"
  using assms
  by (simp_all add: verdict_cleared_def revise_user_stories_def revise_design_docs_def fix_code_review_def
        fix_security_issues_def fix_test_cases_def revise_user_stories_final_def revise_design_docs_final_def
        fix_code_review_final_def fix_security_issues_final_def fix_test_cases_final_def
        needs_language_def log_entry_def Let_def)

text \<open>
  C5, as amended. A revision handler that runs with feedback present (and the target
  language set) and obtains a reply from the Generation Service returns with decision and
  feedback both \<open>None\<close>. The generation handlers (\<open>generate_user_stories\<close>,
  \<open>create_design_docs\<close>, \<open>generate_code\<close>, \<open>write_test_cases\<close>) leave decision
  and feedback as they found them.
\<close>

theorem verdict_reset_by_revision_only:
  "(truthy (feedback s) \<and> target_language s \<noteq> None \<longrightarrow>
      verdict_cleared (revise_user_stories (Responds r) s)
    \<and> verdict_cleared (revise_design_docs (Responds r) s)
    \<and> verdict_cleared (fix_code_review (Responds r) s)
    \<and> verdict_cleared (fix_security_issues (Responds r) s)
    \<and> verdict_cleared (fix_test_cases (Responds r) s)
    \<and> verdict_cleared (revise_user_stories_final (Responds r) s)
    \<and> verdict_cleared (revise_design_docs_final (Responds r) s)
    \<and> verdict_cleared (fix_code_review_final (Responds r) s)
    \<and> verdict_cleared (fix_security_issues_final (Responds r) s)
    \<and> verdict_cleared (fix_test_cases_final (Responds r) s))
   \<and> decision (store_of (generate_user_stories l s)) = decision s
   \<and> feedback (store_of (generate_user_stories l s)) = feedback s
   \<and> decision (store_of (create_design_docs l s)) = decision s
   \<and> feedback (store_of (create_design_docs l s)) = feedback s
   \<and> decision (store_of (generate_code l s)) = decision s
   \<and> feedback (store_of (generate_code l s)) = feedback s
   \<and> decision (store_of (write_test_cases l s)) = decision s
   \<and> feedback (store_of (write_test_cases l s)) = feedback s
   \<and> decision (store_of (generate_user_stories_final l s)) = decision s
   \<and> feedback (store_of (generate_user_stories_final l s)) = feedback s
   \<and> decision (store_of (create_design_docs_final l s)) = decision s
   \<and> feedback (store_of (create_design_docs_final l s)) = feedback s
   \<and> decision (store_of (generate_code_final l s)) = decision s
   \<and> feedback (store_of (generate_code_final l s)) = feedback s
   \<and> decision (store_of (write_test_cases_final l s)) = decision s
   \<and> feedback (store_of (write_test_cases_final l s)) = feedback s"
  by (intro conjI impI;
      simp add: revision_clears_verdict generation_keeps_verdict generation_final_keeps_verdict)

theorem verdict_reset_by_revision_only_witness:
  "truthy (feedback failed_qa_record) \<and> target_language failed_qa_record \<noteq> None
   \<and> verdict_cleared (fix_code_review_final (Responds ''print(2)'') failed_qa_record)
   \<and> decision (store_of (generate_code_final (Responds ''print(2)'') failed_qa_record)) = Some ''failed''"
proof -
  have a: "truthy (feedback failed_qa_record)" by code_simp
  have b: "target_language failed_qa_record \<noteq> None" by code_simp
  have c: "decision failed_qa_record = Some ''failed''" by code_simp
  from verdict_reset_by_revision_only [of failed_qa_record "''print(2)''" "Responds ''print(2)''"] a b c
  show ?thesis by simp
qed

text \<open>
  A generation stage does not reset the verdict: \<open>create_design_docs\<close> keeps the
  approval of the stories, and \<open>generate_code\<close>, entered after a failed QA, keeps the
  failure and its feedback into "Code Review".
\<close>

theorem generation_keeps_verdict_counterexample:
  "decision (store_of (create_design_docs (Responds ''design'')
       (python_record\<lparr>stage := CreateDesignDocs, decision := Some ''approved''\<rparr>))) = Some ''approved''
   \<and> generate_code_final (Responds ''print(2)'') (failed_qa_record\<lparr>stage := GenerateCode\<rparr>)
       = Returned (failed_qa_record\<lparr>stage := CodeReview, code := Some ''print(2)'',
           history := [(''generate_code'', ''print(2)'')]\<rparr>)
   \<and> decision failed_qa_record = Some ''failed''
   \<and> feedback failed_qa_record = Some ''no edge cases''"
  by code_simp

section \<open>Review stages\<close>






section \<open>The history of the first revision\<close>

lemma review_verdict_history: "history (store_of (review_verdict a content unclear s)) = history s"
  by (simp add: review_verdict_def split: option.splits)

lemma qa_verdict_history: "history (store_of (qa_verdict content s)) = history s"
  by (simp add: qa_verdict_def split: option.splits)

lemma and_then_stage_history:
  "history (store_of (and_then r (\<lambda>s'. Returned (s'\<lparr>stage := t\<rparr>)))) = history (store_of r)"
  by (cases r) simp_all

lemma first_handlers_history:
  "history (store_of (generate_user_stories l s)) = history s"
  "history (store_of (product_owner_review l s)) = history s"
  "history (store_of (revise_user_stories l s)) = history s"
  "history (store_of (create_design_docs l s)) = history s"
  "history (store_of (design_review l s)) = history s"
  "history (store_of (revise_design_docs l s)) = history s"
  "history (store_of (generate_code l s)) = history s"
  "history (store_of (code_review l s)) = history s"
  "history (store_of (fix_code_review l s)) = history s"
  "history (store_of (security_review l s)) = history s"
  "history (store_of (fix_security_issues l s)) = history s"
  "history (store_of (write_test_cases l s)) = history s"
  "history (store_of (review_test_cases l s)) = history s"
  "history (store_of (fix_test_cases l s)) = history s"
  "history (store_of (qa_testing l s)) = history s"
  "history (store_of (deploy s)) = history s"
  by (simp_all add: generate_user_stories_def product_owner_review_def revise_user_stories_def
        create_design_docs_def design_review_def revise_design_docs_def generate_code_def
        code_review_def fix_code_review_def security_review_def fix_security_issues_def
        write_test_cases_def review_test_cases_def fix_test_cases_def qa_testing_def deploy_def
        needs_language_def Let_def review_verdict_history qa_verdict_history and_then_stage_history
        split: llm.splits)

lemma store_history:
  "history (app_state (store_of (store sess r))) = history (store_of r)"
  by (cases r) (simp_all add: store_def)

lemma header_language_history:
  "history (app_state (store_of (header_language sess k))) =
     (if target_language (app_state sess) = None then history (app_state sess)
      else history (app_state (store_of k)))"
  by (simp add: header_language_def)

lemma review_stage_history:
  "history (app_state (store_of (review_stage r a b ev sess)))
     \<in> {history (app_state sess), history (store_of r)}"
  by (cases r; cases ev) (simp_all add: review_stage_def)

lemma user_input_stage_history:
  "history (app_state (store_of (user_input_stage ev sess))) = history (app_state sess)"
  by (cases ev) (simp_all add: user_input_stage_def)

lemma deployed_stage_history:
  "history (app_state (store_of (deployed_stage ev sess))) \<in> {history (app_state sess), []}"
  by (cases ev) (simp_all add: deployed_stage_def header_language_def initial_state_def)

lemma qa_testing_stage_history:
  "history (app_state (store_of (qa_testing_stage l sess))) = history (app_state sess)"
proof (cases "qa_testing l (app_state sess)")
  case (Returned s')
  then have "history s' = history (app_state sess)"
    using first_handlers_history(15) [of l "app_state sess"] by simp
  with Returned show ?thesis by (simp add: qa_testing_stage_def header_language_def)
next
  case (Raised e s')
  then have "history s' = history (app_state sess)"
    using first_handlers_history(15) [of l "app_state sess"] by simp
  with Raised show ?thesis by (simp add: qa_testing_stage_def header_language_def)
qed

lemma deploy_stage_history:
  "history (app_state (store_of (deploy_stage sess))) = history (app_state sess)"
  by (simp add: deploy_stage_def deploy_def header_language_def)

lemma main_history:
  "history (app_state (store_of (main l ev sess))) \<in> {history (app_state sess), []}"
proof (cases "display_area_raises (app_state sess)")
  case True
  then show ?thesis by (simp add: main_def)
next
  case False
  note rs = review_stage_history [of _ _ _ ev sess]
  show ?thesis
  proof (cases "stage (app_state sess)")
    case ProductOwnerReview
    with False rs [of "product_owner_review l (app_state sess)"] show ?thesis
      by (auto simp: main_def first_handlers_history)
  next
    case DesignReview
    with False rs [of "design_review l (app_state sess)"] show ?thesis
      by (auto simp: main_def first_handlers_history)
  next
    case CodeReview
    with False rs [of "code_review l (app_state sess)"] show ?thesis
      by (auto simp: main_def first_handlers_history header_language_history)
  next
    case SecurityReview
    with False rs [of "security_review l (app_state sess)"] show ?thesis
      by (auto simp: main_def first_handlers_history header_language_history)
  next
    case TestCaseReview
    with False rs [of "review_test_cases l (app_state sess)"] show ?thesis
      by (auto simp: main_def first_handlers_history header_language_history)
  next
    case Deployed
    with False deployed_stage_history [of ev sess] show ?thesis by (simp add: main_def)
  qed (use False in \<open>simp_all add: main_def store_history first_handlers_history
         header_language_history user_input_stage_history qa_testing_stage_history
         deploy_stage_history\<close>)
qed

text \<open>
  C9. In the first revision no handler and no branch of the page script appends to the
  history: in every session that the page script can reach from the initial one, after
  runs that ended or raised, the history of the work record is the empty list.
\<close>

theorem first_revision_history_stays_empty:
  "reachable sess \<Longrightarrow> history (app_state sess) = []"
proof (induction rule: reachable.induct)
  case start
  show ?case by (simp add: initial_session_def initial_state_def)
next
  case (run sess l ev)
  with main_history [of l ev sess] show ?case by auto
qed

theorem first_revision_history_stays_empty_witness:
  "reachable (store_of (main (Responds ''As a user, I want X'') NoButton
       (store_of (main NoLLM (StartSDLC ''a shop'' ''Python'') initial_session))))
   \<and> history (app_state (store_of (main (Responds ''As a user, I want X'') NoButton
       (store_of (main NoLLM (StartSDLC ''a shop'' ''Python'') initial_session))))) = []
   \<and> user_stories (app_state (store_of (main (Responds ''As a user, I want X'') NoButton
       (store_of (main NoLLM (StartSDLC ''a shop'' ''Python'') initial_session)))))
       = Some ''As a user, I want X''"
proof -
  have r: "reachable (store_of (main (Responds ''As a user, I want X'') NoButton
       (store_of (main NoLLM (StartSDLC ''a shop'' ''Python'') initial_session))))"
    by (intro reachable.run reachable.start)
  have u: "user_stories (app_state (store_of (main (Responds ''As a user, I want X'') NoButton
       (store_of (main NoLLM (StartSDLC ''a shop'' ''Python'') initial_session)))))
       = Some ''As a user, I want X''"
    by code_simp
  from r first_revision_history_stays_empty [OF r] u show ?thesis by blast
qed

section \<open>One run of the page script and the transition table\<close>

lemma review_verdict_stage: "stage (store_of (review_verdict a content unclear s)) = stage s"
  by (simp add: review_verdict_def split: option.splits)

lemma qa_verdict_stage: "stage (store_of (qa_verdict content s)) = stage s"
  by (simp add: qa_verdict_def split: option.splits)

lemma and_then_stage:
  "stage (store_of (and_then r (\<lambda>s'. Returned (f s')))) =
     (case r of Returned s' \<Rightarrow> stage (f s') | Raised e s' \<Rightarrow> stage s')"
  by (cases r) simp_all

lemma and_then_keeps_stage:
  assumes "\<And>x. stage (f x) = stage x"
  shows "stage (store_of (and_then r (\<lambda>s'. Returned (f s')))) = stage (store_of r)"
  using assms by (cases r) simp_all

lemma log_entry_stage: "stage (log_entry n t s) = stage s"
  by (simp add: log_entry_def)

lemma final_reviews_stage:
  "stage (store_of (product_owner_review_final l s)) = stage s"
  "stage (store_of (design_review_final l s)) = stage s"
  "stage (store_of (code_review_final l s)) = stage s"
  "stage (store_of (review_test_cases_final l s)) = stage s"
  by (simp_all add: product_owner_review_final_def design_review_final_def code_review_final_def
        review_test_cases_final_def needs_language_def Let_def and_then_keeps_stage
        log_entry_stage review_verdict_stage split: llm.splits)

lemma security_review_final_stage:
  "stage (store_of (security_review_final l s)) \<in> {stage s, SecurityReview}"
proof -
  have "stage (store_of (and_then r (\<lambda>s'. Returned (log_entry n t (s'\<lparr>stage := SecurityReview\<rparr>)))))
        \<in> {stage (store_of r), SecurityReview}" for r n t
    by (cases r) (simp_all add: log_entry_def)
  from this [of "review_verdict _ _ _ s"] show ?thesis
    by (auto simp: security_review_final_def needs_language_def Let_def review_verdict_stage
          split: llm.splits)
qed

lemma final_automatic_stage:
  "stage (store_of (generate_user_stories_final l s)) \<in> {stage s, ProductOwnerReview}"
  "stage (store_of (revise_user_stories_final l s)) \<in> {stage s, ProductOwnerReview}"
  "stage (store_of (create_design_docs_final l s)) \<in> {stage s, DesignReview}"
  "stage (store_of (revise_design_docs_final l s)) \<in> {stage s, DesignReview}"
  "stage (store_of (generate_code_final l s)) \<in> {stage s, CodeReview, UserInput}"
  "stage (store_of (fix_code_review_final l s)) \<in> {stage s, CodeReview}"
  "stage (store_of (fix_security_issues_final l s)) \<in> {stage s, SecurityReview}"
  "stage (store_of (write_test_cases_final l s)) \<in> {stage s, TestCaseReview}"
  "stage (store_of (fix_test_cases_final l s)) \<in> {stage s, TestCaseReview}"
  by (simp_all add: generate_user_stories_final_def revise_user_stories_final_def
        create_design_docs_final_def revise_design_docs_final_def generate_code_final_def
        fix_code_review_final_def fix_security_issues_final_def write_test_cases_final_def
        fix_test_cases_final_def needs_language_def Let_def log_entry_def split: llm.splits)

lemma store_stage: "stage (app_state (store_of (store sess r))) = stage (store_of r)"
  by (cases r) (simp_all add: store_def)

lemma header_language_stage:
  "stage (app_state (store_of (header_language sess k))) =
     (if target_language (app_state sess) = None then stage (app_state sess)
      else stage (app_state (store_of k)))"
  by (simp add: header_language_def)

lemma review_stage_stage:
  "stage (app_state (store_of (review_stage r a b ev sess)))
     \<in> {stage (app_state sess), stage (store_of r), a, b}"
  by (cases r; cases ev) (simp_all add: review_stage_def)

lemma user_input_stage_stage:
  "stage (app_state (store_of (user_input_stage ev sess)))
     \<in> {stage (app_state sess), GenerateUserStories}"
  by (cases ev) (simp_all add: user_input_stage_def)

lemma deployed_stage_stage:
  "ev \<noteq> StartNewWorkflow \<Longrightarrow>
   stage (app_state (store_of (deployed_stage ev sess))) = stage (app_state sess)"
  by (cases ev) (simp_all add: deployed_stage_def header_language_def)

lemma qa_testing_stage_final_stage:
  "stage (app_state (store_of (qa_testing_stage_final l sess))) \<in> {Deploy, GenerateCode}"
  by (simp add: qa_testing_stage_final_def split: outcome.splits)
    (auto simp: qa_testing_final_def Let_def split: llm.splits outcome.splits if_splits)

lemma deploy_stage_final_stage:
  "stage (app_state (store_of (deploy_stage_final l sess)))
     \<in> {stage (app_state sess), Deployed, DeploymentFailed}"
  by (auto simp: deploy_stage_final_def header_language_def deploy_final_def
        split: outcome.splits option.splits llm.splits if_splits)

lemma main_final_stage:
  assumes "ev \<noteq> StartNewWorkflow"
  shows "declared_successor (stage (app_state sess))
           (stage (app_state (store_of (main_final l ev sess))))"
proof (cases "display_area_raises (app_state sess)")
  case True
  then show ?thesis by (simp add: main_final_def declared_successor_def)
next
  case False
  note rs = review_stage_stage [of _ _ _ ev sess]
  note fr = final_reviews_stage [of l "app_state sess"]
  note fa = final_automatic_stage [of l "app_state sess"]
  show ?thesis
  proof (cases "stage (app_state sess)")
    case UserInput
    with False user_input_stage_stage [of ev sess] show ?thesis
      by (auto simp: main_final_def declared_successor_def)
  next
    case GenerateUserStories
    with False fa(1) show ?thesis
      by (auto simp: main_final_def declared_successor_def store_stage)
  next
    case ProductOwnerReview
    with False rs [of "product_owner_review_final l (app_state sess)"] fr(1) show ?thesis
      by (auto simp: main_final_def declared_successor_def)
  next
    case ReviseUserStories
    with False fa(2) show ?thesis
      by (auto simp: main_final_def declared_successor_def store_stage)
  next
    case CreateDesignDocs
    with False fa(3) show ?thesis
      by (auto simp: main_final_def declared_successor_def store_stage)
  next
    case DesignReview
    with False rs [of "design_review_final l (app_state sess)"] fr(2) show ?thesis
      by (auto simp: main_final_def declared_successor_def)
  next
    case ReviseDesignDocs
    with False fa(4) show ?thesis
      by (auto simp: main_final_def declared_successor_def store_stage)
  next
    case GenerateCode
    with False fa(5) show ?thesis
      by (auto simp: main_final_def declared_successor_def store_stage header_language_stage)
  next
    case CodeReview
    with False rs [of "code_review_final l (app_state sess)"] fr(3) show ?thesis
      by (auto simp: main_final_def declared_successor_def header_language_stage)
  next
    case FixCodeReview
    with False fa(6) show ?thesis
      by (auto simp: main_final_def declared_successor_def store_stage header_language_stage)
  next
    case SecurityReview
    with False rs [of "security_review_final l (app_state sess)"]
      security_review_final_stage [of l "app_state sess"] show ?thesis
      by (auto simp: main_final_def declared_successor_def header_language_stage)
  next
    case FixSecurity
    with False fa(7) show ?thesis
      by (auto simp: main_final_def declared_successor_def store_stage header_language_stage)
  next
    case WriteTestCases
    with False fa(8) show ?thesis
      by (auto simp: main_final_def declared_successor_def store_stage header_language_stage)
  next
    case TestCaseReview
    with False rs [of "review_test_cases_final l (app_state sess)"] fr(4) show ?thesis
      by (auto simp: main_final_def declared_successor_def header_language_stage)
  next
    case FixTestCases
    with False fa(9) show ?thesis
      by (auto simp: main_final_def declared_successor_def store_stage header_language_stage)
  next
    case QATesting
    with False qa_testing_stage_final_stage [of l sess] show ?thesis
      by (auto simp: main_final_def declared_successor_def)
  next
    case Deploy
    with False deploy_stage_final_stage [of l sess] show ?thesis
      by (auto simp: main_final_def declared_successor_def)
  next
    case Deployed
    with False deployed_stage_stage [OF assms, of sess] show ?thesis
      by (simp add: main_final_def declared_successor_def)
  next
    case DeploymentFailed
    with False show ?thesis by (simp add: main_final_def declared_successor_def)
  qed
qed

lemma first_reviews_stage:
  "stage (store_of (product_owner_review l s)) = stage s"
  "stage (store_of (design_review l s)) = stage s"
  "stage (store_of (code_review l s)) = stage s"
  "stage (store_of (review_test_cases l s)) = stage s"
  by (simp_all add: product_owner_review_def design_review_def code_review_def
        review_test_cases_def needs_language_def Let_def review_verdict_stage split: llm.splits)

lemma security_review_stage:
  "stage (store_of (security_review l s)) \<in> {stage s, SecurityReview}"
proof -
  have "stage (store_of (and_then r (\<lambda>s'. Returned (s'\<lparr>stage := SecurityReview\<rparr>))))
        \<in> {stage (store_of r), SecurityReview}" for r
    by (cases r) simp_all
  from this [of "review_verdict _ _ _ s"] show ?thesis
    by (auto simp: security_review_def needs_language_def Let_def review_verdict_stage
          split: llm.splits)
qed

lemma first_automatic_stage:
  "stage (store_of (generate_user_stories l s)) \<in> {stage s, ProductOwnerReview}"
  "stage (store_of (revise_user_stories l s)) \<in> {stage s, ProductOwnerReview}"
  "stage (store_of (create_design_docs l s)) \<in> {stage s, DesignReview}"
  "stage (store_of (revise_design_docs l s)) \<in> {stage s, DesignReview}"
  "stage (store_of (generate_code l s)) \<in> {stage s, CodeReview, UserInput}"
  "stage (store_of (fix_code_review l s)) \<in> {stage s, CodeReview}"
  "stage (store_of (fix_security_issues l s)) \<in> {stage s, SecurityReview}"
  "stage (store_of (write_test_cases l s)) \<in> {stage s, TestCaseReview}"
  "stage (store_of (fix_test_cases l s)) \<in> {stage s, TestCaseReview}"
  by (simp_all add: generate_user_stories_def revise_user_stories_def
        create_design_docs_def revise_design_docs_def generate_code_def
        fix_code_review_def fix_security_issues_def write_test_cases_def
        fix_test_cases_def needs_language_def Let_def split: llm.splits)

lemma qa_testing_stage_stage:
  "stage (app_state (store_of (qa_testing_stage l sess)))
     \<in> {stage (app_state sess), Deploy, CodeReview}"
proof (cases "qa_testing l (app_state sess)")
  case (Returned s')
  then show ?thesis by (simp add: qa_testing_stage_def header_language_def)
next
  case (Raised e s')
  then have "stage s' = stage (app_state sess)"
    by (auto simp: qa_testing_def qa_verdict_def split: if_splits llm.splits option.splits)
  with Raised show ?thesis by (simp add: qa_testing_stage_def header_language_def)
qed

lemma deploy_stage_stage:
  "stage (app_state (store_of (deploy_stage sess))) \<in> {stage (app_state sess), Deployed}"
  by (simp add: deploy_stage_def deploy_def header_language_def)

lemma main_stage:
  assumes "ev \<noteq> StartNewWorkflow"
  shows "declared_successor (stage (app_state sess)) (stage (app_state (store_of (main l ev sess))))
       \<or> (stage (app_state sess) = QATesting
          \<and> stage (app_state (store_of (main l ev sess))) = CodeReview)"
proof (cases "display_area_raises (app_state sess)")
  case True
  then show ?thesis by (simp add: main_def declared_successor_def)
next
  case False
  note rs = review_stage_stage [of _ _ _ ev sess]
  note fr = first_reviews_stage [of l "app_state sess"]
  note fa = first_automatic_stage [of l "app_state sess"]
  show ?thesis
  proof (cases "stage (app_state sess)")
    case UserInput
    with False user_input_stage_stage [of ev sess] show ?thesis
      by (auto simp: main_def declared_successor_def)
  next
    case GenerateUserStories
    with False fa(1) show ?thesis
      by (auto simp: main_def declared_successor_def store_stage)
  next
    case ProductOwnerReview
    with False rs [of "product_owner_review l (app_state sess)"] fr(1) show ?thesis
      by (auto simp: main_def declared_successor_def)
  next
    case ReviseUserStories
    with False fa(2) show ?thesis
      by (auto simp: main_def declared_successor_def store_stage)
  next
    case CreateDesignDocs
    with False fa(3) show ?thesis
      by (auto simp: main_def declared_successor_def store_stage)
  next
    case DesignReview
    with False rs [of "design_review l (app_state sess)"] fr(2) show ?thesis
      by (auto simp: main_def declared_successor_def)
  next
    case ReviseDesignDocs
    with False fa(4) show ?thesis
      by (auto simp: main_def declared_successor_def store_stage)
  next
    case GenerateCode
    with False fa(5) show ?thesis
      by (auto simp: main_def declared_successor_def store_stage header_language_stage)
  next
    case CodeReview
    with False rs [of "code_review l (app_state sess)"] fr(3) show ?thesis
      by (auto simp: main_def declared_successor_def header_language_stage)
  next
    case FixCodeReview
    with False fa(6) show ?thesis
      by (auto simp: main_def declared_successor_def store_stage header_language_stage)
  next
    case SecurityReview
    with False rs [of "security_review l (app_state sess)"]
      security_review_stage [of l "app_state sess"] show ?thesis
      by (auto simp: main_def declared_successor_def header_language_stage)
  next
    case FixSecurity
    with False fa(7) show ?thesis
      by (auto simp: main_def declared_successor_def store_stage header_language_stage)
  next
    case WriteTestCases
    with False fa(8) show ?thesis
      by (auto simp: main_def declared_successor_def store_stage header_language_stage)
  next
    case TestCaseReview
    with False rs [of "review_test_cases l (app_state sess)"] fr(4) show ?thesis
      by (auto simp: main_def declared_successor_def header_language_stage)
  next
    case FixTestCases
    with False fa(9) show ?thesis
      by (auto simp: main_def declared_successor_def store_stage header_language_stage)
  next
    case QATesting
    with False qa_testing_stage_stage [of l sess] show ?thesis
      by (auto simp: main_def declared_successor_def)
  next
    case Deploy
    with False deploy_stage_stage [of sess] show ?thesis
      by (auto simp: main_def declared_successor_def)
  next
    case Deployed
    with False deployed_stage_stage [OF assms, of sess] show ?thesis
      by (simp add: main_def declared_successor_def)
  next
    case DeploymentFailed
    with False show ?thesis by (simp add: main_def declared_successor_def)
  qed
qed

text \<open>
  C1, as amended. For every stage \<open>s\<close>, one run of the page script (a verdict at a
  decision stage, a handler at an automatic stage; the reset button apart) on a session
  whose record has stage \<open>s\<close> leaves a record whose stage is a declared successor of
  \<open>s\<close>: always in the final revision, and in the first revision with the one exception
  that "QA Testing" may go to "Code Review". This covers the record left behind by a run
  that raised.
\<close>

theorem turn_stays_within_declared_successors:
  assumes "ev \<noteq> StartNewWorkflow"
  shows "declared_successor (stage (app_state sess))
           (stage (app_state (store_of (main_final l ev sess))))
       \<and> (declared_successor (stage (app_state sess)) (stage (app_state (store_of (main l ev sess))))
          \<or> (stage (app_state sess) = QATesting
             \<and> stage (app_state (store_of (main l ev sess))) = CodeReview))"
  using main_final_stage [OF assms] main_stage [OF assms] by blast

theorem turn_stays_within_declared_successors_witness:
  "AskAI \<noteq> StartNewWorkflow
   \<and> stage (app_state (store_of (main_final (Responds ''feedback: handle errors'') AskAI
        (initial_session\<lparr>app_state := failed_qa_record\<lparr>stage := CodeReview\<rparr>\<rparr>)))) = FixCodeReview
   \<and> stage (app_state (store_of (main (Responds ''feedback: handle errors'') AskAI
        (initial_session\<lparr>app_state := failed_qa_record\<lparr>stage := CodeReview\<rparr>\<rparr>)))) = FixCodeReview
   \<and> declared_successor CodeReview FixCodeReview"
proof -
  have a: "AskAI \<noteq> StartNewWorkflow" by simp
  let ?sess = "initial_session\<lparr>app_state := failed_qa_record\<lparr>stage := CodeReview\<rparr>\<rparr>"
  have s: "stage (app_state ?sess) = CodeReview" by simp
  have f: "stage (app_state (store_of (main_final (Responds ''feedback: handle errors'') AskAI ?sess)))
      = FixCodeReview" by code_simp
  have g: "stage (app_state (store_of (main (Responds ''feedback: handle errors'') AskAI ?sess)))
      = FixCodeReview" by code_simp
  from turn_stays_within_declared_successors [OF a, of ?sess "Responds ''feedback: handle errors''"]
  have "declared_successor CodeReview FixCodeReview" unfolding s f by blast
  with a f g show ?thesis by blast
qed

text \<open>
  In the first revision a QA that does not pass leaves "QA Testing" for "Code Review",
  which the table does not list for it.
\<close>

theorem first_revision_qa_leaves_table_counterexample:
  "stage (app_state qa_ready) = QATesting
   \<and> stage (app_state (store_of (main (Responds ''the tests look thin'') NoButton qa_ready))) = CodeReview
   \<and> \<not> declared_successor QATesting CodeReview"
  by code_simp

end
